theory Spec2Isabelle
  imports Main "HOL-Library.AList" "HOL-Library.Word"
begin

section \<open>Errors and external outcomes\<close>

text \<open>
  Go errors are modelled by their message. An error returned by the container engine is
  either one for which \<^verbatim>\<open>errors.Is(err, errdefs.ErrNotFound)\<close> holds, or any other error
  with its message.
\<close>

type_synonym err = string

datatype engine_err = ErrNotFound | ErrOther string

fun err_msg :: "engine_err \<Rightarrow> string" where
  "err_msg ErrNotFound = ''not found''"
| "err_msg (ErrOther m) = m"

text \<open>\<^verbatim>\<open>errors.Join\<close>: nil when there is no error, else the messages joined by newlines.\<close>

fun join_lines :: "string list \<Rightarrow> string" where
  "join_lines [] = []"
| "join_lines [m] = m"
| "join_lines (m # ms) = m @ [CHR 0x0A] @ join_lines ms"

definition errors_Join :: "err list \<Rightarrow> err option" where
  "errors_Join errs = (if errs = [] then None else Some (join_lines errs))"

section \<open>Package cont: the container adapter\<close>

record StopOptions =
  Timeout :: nat
  ForceKill :: bool
  RemoveOnStop :: bool

record Mount =
  m_Type :: string
  m_Source :: string
  m_Destination :: string
  m_Options :: "string list"

record RemoveOptions =
  RemoveSnapshotIfExists :: bool
  RemoveContainerIfExists :: bool

text \<open>
  \<^verbatim>\<open>Command\<close> and \<^verbatim>\<open>Env\<close> are slices validated as \<^verbatim>\<open>required\<close>, which rejects a nil
  slice and accepts an empty one, so both are optional lists (\<open>None\<close> is nil).
\<close>

record ContainerConfig =
  cc_Image :: string
  cc_Name :: string
  cc_Namespace :: string
  cc_Command :: "string list option"
  cc_Env :: "string list option"
  cc_Mounts :: "Mount list"
  cc_RemoveOptions :: RemoveOptions

text \<open>
  The fields of \<^verbatim>\<open>Container\<close>. The engine-side container and the task are handles, nil
  (\<open>None\<close>) until \<^verbatim>\<open>Start\<close> creates them; \<open>c_callbacks\<close> counts the registered log
  callbacks.
\<close>

record Container =
  c_id :: string
  c_mounts :: "Mount list"
  c_container :: "string option"
  c_task :: "string option"
  c_config :: ContainerConfig
  c_logs :: "string list"
  c_callbacks :: nat
  c_tempDirs :: "string list"

definition RegisterTmpDir :: "Container \<Rightarrow> string \<Rightarrow> Container" where
  "RegisterTmpDir c path = c\<lparr>c_tempDirs := c_tempDirs c @ [path]\<rparr>"

text \<open>\<^verbatim>\<open>cleanup\<close>: \<^verbatim>\<open>os.RemoveAll\<close> on every temp dir, collecting the failures; the list is
  emptied whatever happened.\<close>

fun cleanup_errs :: "(string \<Rightarrow> err option) \<Rightarrow> string list \<Rightarrow> err list" where
  "cleanup_errs rmAll [] = []"
| "cleanup_errs rmAll (dir # dirs) =
     (case rmAll dir of
        None \<Rightarrow> cleanup_errs rmAll dirs
      | Some e \<Rightarrow> (''failed to remove temp dir '' @ dir @ '': '' @ e) # cleanup_errs rmAll dirs)"

definition cleanup :: "(string \<Rightarrow> err option) \<Rightarrow> Container \<Rightarrow> err option \<times> Container" where
  "cleanup rmAll c =
     (errors_Join (cleanup_errs rmAll (c_tempDirs c)), c\<lparr>c_tempDirs := []\<rparr>)"

text \<open>
  \<^verbatim>\<open>NewContainer\<close>: the namespace is defaulted, the config validated, then the engine is
  dialled. \<open>connect\<close> is the outcome of \<^verbatim>\<open>containerd.New\<close>.
\<close>

definition validate_Struct :: "ContainerConfig \<Rightarrow> err option" where
  "validate_Struct config =
     (if cc_Image config = [] then Some ''Image is required''
      else if cc_Name config = [] then Some ''Name is required''
      else if cc_Namespace config = [] then Some ''Namespace is required''
      else if cc_Command config = None then Some ''Command is required''
      else if cc_Env config = None then Some ''Env is required''
      else None)"

definition NewContainer :: "err option \<Rightarrow> ContainerConfig \<Rightarrow> err + Container" where
  "NewContainer connect config0 =
     (let config = (if cc_Namespace config0 = [] then config0\<lparr>cc_Namespace := ''default''\<rparr>
                    else config0)
      in case validate_Struct config of
           Some e \<Rightarrow> Inl e
         | None \<Rightarrow>
             (case connect of
                Some e \<Rightarrow> Inl (''failed to connect to containerd: '' @ e)
              | None \<Rightarrow>
                  Inr \<lparr>c_id = cc_Name config, c_mounts = cc_Mounts config, c_container = None,
                       c_task = None, c_config = config, c_logs = [], c_callbacks = 0,
                       c_tempDirs = []\<rparr>))"

text \<open>
  \<^verbatim>\<open>Container.Start\<close> talks to the engine step by step. What the caller sees is the step
  that failed, if any, and which handles have been stored by then: the container handle
  is stored once the engine created it, the task handle once the task was created.
\<close>

datatype start_failure =
    FailTaskStatus err | FailKillTask err | FailWaitTask err | FailDeleteTask err
  | FailDeleteExisting err | FailRemoveSnapshot err | FailPull err
  | FailCreateContainer err | FailCreateTask err | FailStartTask err

fun start_failure_msg :: "start_failure \<Rightarrow> err" where
  "start_failure_msg (FailTaskStatus e) = ''failed to get task status: '' @ e"
| "start_failure_msg (FailKillTask e) = ''failed to kill task: '' @ e"
| "start_failure_msg (FailWaitTask e) = ''failed to wait for task: '' @ e"
| "start_failure_msg (FailDeleteTask e) = ''failed to delete task: '' @ e"
| "start_failure_msg (FailDeleteExisting e) = ''failed to delete existing container: '' @ e"
| "start_failure_msg (FailRemoveSnapshot e) = ''failed to remove snapshot: '' @ e"
| "start_failure_msg (FailPull e) = ''failed to pull image: '' @ e"
| "start_failure_msg (FailCreateContainer e) = ''failed to create container: '' @ e"
| "start_failure_msg (FailCreateTask e) = ''failed to create task: '' @ e"
| "start_failure_msg (FailStartTask e) = ''failed to start task: '' @ e"

fun cont_Start :: "start_failure option \<Rightarrow> Container \<Rightarrow> err option \<times> Container" where
  "cont_Start None c = (None, c\<lparr>c_container := Some (c_id c), c_task := Some (c_id c)\<rparr>)"
| "cont_Start (Some (FailCreateTask e)) c =
     (Some (start_failure_msg (FailCreateTask e)), c\<lparr>c_container := Some (c_id c)\<rparr>)"
| "cont_Start (Some (FailStartTask e)) c =
     (Some (start_failure_msg (FailStartTask e)),
      c\<lparr>c_container := Some (c_id c), c_task := Some (c_id c)\<rparr>)"
| "cont_Start (Some f) c = (Some (start_failure_msg f), c)"

subsection \<open>Remove and Stop\<close>

datatype ProcessStatus = Running | Created | Stopped | Paused | Pausing | Unknown | NoStatus

datatype signal = SIGTERM | SIGKILL

text \<open>What the engine and the file system answer to the calls of one \<^verbatim>\<open>Remove\<close>.\<close>

record remove_world =
  rw_status :: "engine_err + ProcessStatus"
  rw_task_delete :: "engine_err option"
  rw_container_delete :: "engine_err option"
  rw_removeAll :: "string \<Rightarrow> err option"

definition remove_task_errs :: "remove_world \<Rightarrow> Container \<Rightarrow> err list" where
  "remove_task_errs w c =
     (if c_task c \<noteq> None then
        (case rw_status w of
           Inr st \<Rightarrow>
             (case rw_task_delete w of
                Some (ErrOther m) \<Rightarrow> [''failed to delete task: '' @ m]
              | _ \<Rightarrow> [])
         | Inl e \<Rightarrow> [])
      else [])"

definition remove_container_errs :: "remove_world \<Rightarrow> Container \<Rightarrow> err list" where
  "remove_container_errs w c =
     (if c_container c \<noteq> None then
        (case rw_container_delete w of
           Some (ErrOther m) \<Rightarrow> [''failed to delete container: '' @ m]
         | _ \<Rightarrow> [])
      else [])"

definition Remove :: "remove_world \<Rightarrow> Container \<Rightarrow> err option \<times> Container" where
  "Remove w c =
     (let errs1 = remove_task_errs w c @ remove_container_errs w c;
          (cerr, c') = cleanup (rw_removeAll w) c;
          errs = errs1 @ (case cerr of None \<Rightarrow> [] | Some e \<Rightarrow> [e])
      in (errors_Join errs, c'))"

text \<open>
  What the engine answers to the calls of one \<^verbatim>\<open>Stop\<close>: the task status, the first kill,
  the wait, whether the exit status arrives before the timeout, the forced kill after a
  timeout, and the answers to the \<^verbatim>\<open>Remove\<close> that may follow.
\<close>

record stop_world =
  sw_status :: "engine_err + ProcessStatus"
  sw_kill :: "signal \<Rightarrow> engine_err option"
  sw_wait :: "engine_err option"
  sw_exited :: bool
  sw_force_kill :: "engine_err option"
  sw_remove :: remove_world

definition stop_finish :: "stop_world \<Rightarrow> StopOptions \<Rightarrow> Container \<Rightarrow> err option \<times> Container" where
  "stop_finish w opts c = (if RemoveOnStop opts then Remove (sw_remove w) c else (None, c))"

definition cont_Stop :: "stop_world \<Rightarrow> StopOptions \<Rightarrow> Container \<Rightarrow> err option \<times> Container" where
  "cont_Stop w opts c =
     (if c_task c = None then (Some ''no running task found'', c)
      else
        let status = (case sw_status w of Inl e \<Rightarrow> NoStatus | Inr st \<Rightarrow> st) in
        if status \<noteq> Running then stop_finish w opts c
        else
          let sig = (if ForceKill opts then SIGKILL else SIGTERM) in
          case sw_kill w sig of
            Some ErrNotFound \<Rightarrow> stop_finish w opts c
          | Some (ErrOther m) \<Rightarrow> (Some (''failed to stop container: '' @ m), c)
          | None \<Rightarrow>
              (case sw_wait w of
                 Some e \<Rightarrow> (Some (''failed to wait for container: '' @ err_msg e), c)
               | None \<Rightarrow>
                   if sw_exited w then stop_finish w opts c
                   else
                     (case sw_force_kill w of
                        Some (ErrOther m) \<Rightarrow> (Some (''failed to force kill container: '' @ m), c)
                      | _ \<Rightarrow> stop_finish w opts c)))"

text \<open>
  \<^verbatim>\<open>StreamLogs\<close> fails without a task; otherwise the lines logged so far are replayed
  through the callback (the caller folds its callback over the returned lines) and the
  callback is registered.
\<close>

definition StreamLogs :: "Container \<Rightarrow> err + (string list \<times> Container)" where
  "StreamLogs c =
     (if c_task c = None then Inl ''no running task found''
      else Inr (c_logs c, c\<lparr>c_callbacks := Suc (c_callbacks c)\<rparr>))"

section \<open>Formatting\<close>

text \<open>\<^verbatim>\<open>%d\<close> of \<^verbatim>\<open>fmt.Sprintf\<close>: the decimal digits, with a minus sign when negative.\<close>

definition digit_char :: "nat \<Rightarrow> char" where
  "digit_char n = ''0123456789'' ! (n mod 10)"

fun digits :: "nat \<Rightarrow> string" where
  "digits n = (if n < 10 then [digit_char n] else digits (n div 10) @ [digit_char n])"

declare digits.simps [simp del]

definition itoa :: "int \<Rightarrow> string" where
  "itoa i = (if i < 0 then ''-'' @ digits (nat (- i)) else digits (nat i))"

text \<open>
  \<^verbatim>\<open>uuid.New().String()\<close>: a UUID is 16 random bytes, printed as lower-case hexadecimal in
  the groups 4-2-2-2-6 separated by dashes.
\<close>

definition hex_char :: "nat \<Rightarrow> char" where
  "hex_char n = ''0123456789abcdef'' ! (n mod 16)"

definition hex_byte :: "8 word \<Rightarrow> string" where
  "hex_byte b = [hex_char (unat b div 16), hex_char (unat b)]"

definition encodeHex :: "8 word list \<Rightarrow> string" where
  "encodeHex bs = concat (map hex_byte bs)"

definition uuid_String :: "8 word list \<Rightarrow> string" where
  "uuid_String u =
     encodeHex (take 4 u) @ ''-'' @ encodeHex (take 2 (drop 4 u)) @ ''-'' @
     encodeHex (take 2 (drop 6 u)) @ ''-'' @ encodeHex (take 2 (drop 8 u)) @ ''-'' @
     encodeHex (take 6 (drop 10 u))"

section \<open>Package kappa: the function instance\<close>

datatype json = JNull | JBool bool | JNum int | JStr string | JArr "json list"
  | JObj "(string \<times> json) list"

record KappaEvent =
  ev_Body :: "(string \<times> json) list"
  ev_Path :: string
  ev_HTTPMethod :: string
  ev_Headers :: "(string \<times> string) list"
  ev_QueryParams :: "(string \<times> string) list"
  ev_RequestID :: string

record KappaResponse =
  resp_StatusCode :: int
  resp_Headers :: "(string \<times> string) list"
  resp_Body :: "(string \<times> json) list"
  resp_RequestID :: string

text \<open>
  The fields of \<^verbatim>\<open>KappaFunction\<close>. The container is a pointer, nil (\<open>None\<close>) until the first
  successful start; the idle timer is a pointer to a one-shot timer, \<open>Some d\<close> when a timer
  of duration \<open>d\<close> is armed and \<open>None\<close> when nil. Durations are in nanoseconds.
\<close>

record KappaFunction =
  Name :: string
  BinaryPath :: string
  Image :: string
  Env :: "string list"
  Port :: int
  container :: "Container option"
  containerURL :: string
  runtimeAPIPort :: int
  logs :: "string list"
  isRunning :: bool
  requestsProcessed :: int
  idleTimeout :: nat
  idleTimer :: "nat option"

definition NewKappaFunction ::
  "string \<Rightarrow> string \<Rightarrow> string \<Rightarrow> string list \<Rightarrow> int \<Rightarrow> KappaFunction" where
  "NewKappaFunction name binaryPath img env port =
     \<lparr>Name = name, BinaryPath = binaryPath, Image = img, Env = env, Port = port,
      container = None, containerURL = [], runtimeAPIPort = 0, logs = [],
      isRunning = False, requestsProcessed = 0,
      idleTimeout = 5 * 60 * 1000000000, idleTimer = None\<rparr>"

definition SetIdleTimeout :: "nat \<Rightarrow> KappaFunction \<Rightarrow> KappaFunction" where
  "SetIdleTimeout duration lf =
     (let lf1 = lf\<lparr>idleTimeout := duration\<rparr>
      in if idleTimer lf1 \<noteq> None then lf1\<lparr>idleTimer := Some duration\<rparr> else lf1)"

definition resetIdleTimer :: "KappaFunction \<Rightarrow> KappaFunction" where
  "resetIdleTimer lf = lf\<lparr>idleTimer := Some (idleTimeout lf)\<rparr>"

definition cancelIdleTimer :: "KappaFunction \<Rightarrow> KappaFunction" where
  "cancelIdleTimer lf = (if idleTimer lf \<noteq> None then lf\<lparr>idleTimer := None\<rparr> else lf)"

text \<open>The log callback registered by \<^verbatim>\<open>Start\<close>: append the line, keep the last 1000.\<close>

definition logCallback :: "KappaFunction \<Rightarrow> string \<Rightarrow> KappaFunction" where
  "logCallback lf line =
     (let l = logs lf @ [line]
      in if length l > 1000 then lf\<lparr>logs := drop (length l - 1000) l\<rparr> else lf\<lparr>logs := l\<rparr>)"

text \<open>The environment and the container config assembled by \<^verbatim>\<open>Start\<close>.\<close>

definition start_env :: "KappaFunction \<Rightarrow> string list" where
  "start_env lf =
     [''PORT='' @ itoa (Port lf),
      ''LAMBDA_TASK_ROOT=/app'',
      ''LAMBDA_FUNCTION_NAME='' @ Name lf,
      ''AWS_LAMBDA_RUNTIME_API=localhost:8080''] @ Env lf"

definition start_config :: "KappaFunction \<Rightarrow> string \<Rightarrow> 8 word list \<Rightarrow> ContainerConfig" where
  "start_config lf tmpPath u =
     \<lparr>cc_Image = Image lf,
      cc_Name = ''kappa-'' @ Name lf @ ''-'' @ uuid_String u,
      cc_Namespace = ''kappa'',
      cc_Command = Some [''/app/main''],
      cc_Env = Some (start_env lf),
      cc_Mounts = [\<lparr>m_Type = ''bind'', m_Source = tmpPath, m_Destination = ''/app'',
                    m_Options = [''rbind'', ''rw'']\<rparr>],
      cc_RemoveOptions = \<lparr>RemoveSnapshotIfExists = True, RemoveContainerIfExists = True\<rparr>\<rparr>"

text \<open>
  What the operating system and the engine answer during one \<^verbatim>\<open>Start\<close>: the temp dir
  created, the hard link, the copy tried when the link failed, the chmod, the UUID drawn
  for the container name, the dial of the engine, the engine's start, and the lines the log
  pumps have stored by the time the callback is registered.
\<close>

record start_world =
  stw_mkdirTemp :: "err + string"
  stw_link :: "err option"
  stw_copyFile :: "err option"
  stw_chmod :: "err option"
  stw_uuid :: "8 word list"
  stw_connect :: "err option"
  stw_engine :: "start_failure option"
  stw_logged :: "string list"

definition place_binary :: "start_world \<Rightarrow> err option" where
  "place_binary w =
     (case stw_link w of
        None \<Rightarrow> None
      | Some e \<Rightarrow> (case stw_copyFile w of None \<Rightarrow> None | Some e' \<Rightarrow> Some e'))"

definition launch :: "start_world \<Rightarrow> KappaFunction \<Rightarrow> string \<Rightarrow> err + (string list \<times> Container)" where
  "launch w lf tmpPath =
     (case NewContainer (stw_connect w) (start_config lf tmpPath (stw_uuid w)) of
        Inl e \<Rightarrow> Inl (''failed to create container: '' @ e)
      | Inr c0 \<Rightarrow>
          (case cont_Start (stw_engine w) (RegisterTmpDir c0 tmpPath) of
             (Some e, c1) \<Rightarrow> Inl (''failed to start container: '' @ e)
           | (None, c1) \<Rightarrow>
               (case StreamLogs (c1\<lparr>c_logs := c_logs c1 @ stw_logged w\<rparr>) of
                  Inl e \<Rightarrow> Inl (''failed to stream logs: '' @ e)
                | Inr r \<Rightarrow> Inr r)))"

definition Start :: "start_world \<Rightarrow> KappaFunction \<Rightarrow> err option \<times> KappaFunction" where
  "Start w lf =
     (if isRunning lf then (None, lf)
      else
        case stw_mkdirTemp w of
          Inl e \<Rightarrow> (Some (''failed to create temp directory: '' @ e), lf)
        | Inr tmpPath \<Rightarrow>
            (case place_binary w of
               Some e \<Rightarrow> (Some (''failed to copy binary: '' @ e), lf)
             | None \<Rightarrow>
                 (case stw_chmod w of
                    Some e \<Rightarrow> (Some (''failed to make binary executable: '' @ e), lf)
                  | None \<Rightarrow>
                      (case launch w lf tmpPath of
                         Inl e \<Rightarrow> (Some e, lf)
                       | Inr (replayed, c) \<Rightarrow>
                           (None,
                            resetIdleTimer
                              ((foldl logCallback lf replayed)
                                 \<lparr>container := Some c,
                                  containerURL := ''http://localhost:'' @ itoa (Port lf),
                                  isRunning := True\<rparr>))))))"

definition stopOpts :: StopOptions where
  "stopOpts = \<lparr>Timeout = 10 * 1000000000, ForceKill = True, RemoveOnStop = True\<rparr>"

text \<open>
  \<^verbatim>\<open>Stop\<close>. The container is stopped through the pointer, so the instance keeps pointing
  at the container as \<^verbatim>\<open>Container.Stop\<close> left it.
\<close>

definition Stop :: "stop_world \<Rightarrow> KappaFunction \<Rightarrow> err option \<times> KappaFunction" where
  "Stop w lf =
     (case container lf of
        None \<Rightarrow> (None, lf)
      | Some c \<Rightarrow>
          if \<not> isRunning lf then (None, lf)
          else
            (case cont_Stop w stopOpts c of
               (Some e, c') \<Rightarrow>
                 (Some (''failed to stop container: '' @ e),
                  (cancelIdleTimer lf)\<lparr>container := Some c'\<rparr>)
             | (None, c') \<Rightarrow>
                 (None, (cancelIdleTimer lf)\<lparr>container := Some c', isRunning := False\<rparr>)))"


definition IsRunning :: "KappaFunction \<Rightarrow> bool" where
  "IsRunning lf = isRunning lf"

definition GetLogs :: "KappaFunction \<Rightarrow> string list" where
  "GetLogs lf = logs lf"

subsection \<open>Invoke\<close>

record http_request =
  rq_Method :: string
  rq_URL :: string
  rq_ContentType :: string
  rq_RequestId :: string
  rq_Body :: string

text \<open>
  An error of \<^verbatim>\<open>client.Do\<close>: a connection-level failure (dial refused, connection reset),
  a timeout (the client's 30 seconds or the deadline of the context), or anything else
  (a cancelled context, a malformed reply). \<^verbatim>\<open>Invoke\<close> tests the error against nil only.
\<close>

datatype post_error = ConnectionError string | TimeoutError string | OtherPostError string

fun post_error_msg :: "post_error \<Rightarrow> string" where
  "post_error_msg (ConnectionError m) = m"
| "post_error_msg (TimeoutError m) = m"
| "post_error_msg (OtherPostError m) = m"

text \<open>
  What \<^verbatim>\<open>Invoke\<close> does to the outside, in order: calls of \<^verbatim>\<open>Start\<close> and \<^verbatim>\<open>Stop\<close> with
  what they returned, and requests handed to \<^verbatim>\<open>client.Do\<close>.
\<close>

datatype action = DidStart "err option" | DidStop "err option" | DidPost http_request

text \<open>
  \<^verbatim>\<open>Invoke\<close> holds the running-lock only while it reads \<^verbatim>\<open>isRunning\<close> and inside its calls
  of \<^verbatim>\<open>Start\<close> and \<^verbatim>\<open>Stop\<close>. In between, other goroutines work on the same instance:
  another invocation starts it, resets the idle timer or counts a request; \<^verbatim>\<open>Stop\<close>,
  \<^verbatim>\<open>deleteFunction\<close> or the idle timer's callback stop it (each of the three changes a
  running instance as \<^verbatim>\<open>Stop\<close> does and leaves any other untouched); the idle timeout is
  changed; a log line arrives.
\<close>

datatype other_step =
    OtherStart start_world
  | OtherStop stop_world
  | OtherReset
  | OtherSetIdleTimeout nat
  | OtherLog string
  | OtherCount

fun other_step_run :: "other_step \<Rightarrow> KappaFunction \<Rightarrow> KappaFunction" where
  "other_step_run (OtherStart w) lf = snd (Start w lf)"
| "other_step_run (OtherStop w) lf = snd (Stop w lf)"
| "other_step_run OtherReset lf = resetIdleTimer lf"
| "other_step_run (OtherSetIdleTimeout d) lf = SetIdleTimeout d lf"
| "other_step_run (OtherLog line) lf = logCallback lf line"
| "other_step_run OtherCount lf = lf\<lparr>requestsProcessed := requestsProcessed lf + 1\<rparr>"

fun meanwhile :: "other_step list \<Rightarrow> KappaFunction \<Rightarrow> KappaFunction" where
  "meanwhile [] lf = lf"
| "meanwhile (st # sts) lf = meanwhile sts (other_step_run st lf)"

text \<open>
  What the outside does during one \<^verbatim>\<open>Invoke\<close>, in the order of the code: what the other
  goroutines do after \<^verbatim>\<open>isRunning\<close> has been read; the answers to the \<^verbatim>\<open>Start\<close> of a cold
  function, and what the others do after it; the UUID drawn when the event has no request
  id; the JSON encoder; the construction of the request; the first \<^verbatim>\<open>client.Do\<close> (an error,
  or the body of the reply) and what the others do while it is in flight, for up to 30
  seconds; then, for a restart, what the others do before \<^verbatim>\<open>Stop\<close>, the answers to
  \<^verbatim>\<open>Stop\<close>, what the others do before \<^verbatim>\<open>Start\<close>, the answers to \<^verbatim>\<open>Start\<close>, the second
  \<^verbatim>\<open>client.Do\<close> and what the others do during the wait and the second request; and the
  JSON decoder.
\<close>

record invoke_world =
  iw_after_read :: "other_step list"
  iw_start :: start_world
  iw_after_start :: "other_step list"
  iw_uuid :: "8 word list"
  iw_marshal :: "KappaEvent \<Rightarrow> err + string"
  iw_newRequest :: "err option"
  iw_post :: "http_request \<Rightarrow> post_error + string"
  iw_in_flight :: "other_step list"
  iw_before_stop :: "other_step list"
  iw_stop :: stop_world
  iw_before_start :: "other_step list"
  iw_restart :: start_world
  iw_post_retry :: "http_request \<Rightarrow> post_error + string"
  iw_in_retry :: "other_step list"
  iw_decode :: "string \<Rightarrow> err + KappaResponse"

type_synonym invoke_result = "(err + KappaResponse) \<times> KappaFunction \<times> action list"

text \<open>The end of \<^verbatim>\<open>Invoke\<close>: decode the envelope, backfill the request id, count.\<close>

definition backfill :: "string \<Rightarrow> KappaResponse \<Rightarrow> KappaResponse" where
  "backfill rid kappaResp =
     (if resp_RequestID kappaResp = [] then kappaResp\<lparr>resp_RequestID := rid\<rparr> else kappaResp)"

definition invoke_decode ::
  "invoke_world \<Rightarrow> KappaEvent \<Rightarrow> string \<Rightarrow> KappaFunction \<Rightarrow> (err + KappaResponse) \<times> KappaFunction" where
  "invoke_decode w event body lf =
     (case iw_decode w body of
        Inl e \<Rightarrow> (Inl (''failed to decode response: '' @ e), lf)
      | Inr kappaResp \<Rightarrow>
          (Inr (backfill (ev_RequestID event) kappaResp),
           lf\<lparr>requestsProcessed := requestsProcessed lf + 1\<rparr>))"

text \<open>
  The restart after a failed request: \<^verbatim>\<open>Stop\<close> (its error is dropped), then \<^verbatim>\<open>Start\<close>,
  on the instance as the other goroutines have left it by then.
\<close>

definition restart_stop :: "invoke_world \<Rightarrow> KappaFunction \<Rightarrow> err option \<times> KappaFunction" where
  "restart_stop w lf = Stop (iw_stop w) (meanwhile (iw_before_stop w) lf)"

definition restart_start :: "invoke_world \<Rightarrow> KappaFunction \<Rightarrow> err option \<times> KappaFunction" where
  "restart_start w lf =
     Start (iw_restart w) (meanwhile (iw_before_start w) (snd (restart_stop w lf)))"

text \<open>The restart and the second request.\<close>

definition invoke_restart ::
  "invoke_world \<Rightarrow> KappaEvent \<Rightarrow> http_request \<Rightarrow> KappaFunction \<Rightarrow> invoke_result" where
  "invoke_restart w event req lf =
     (case restart_stop w lf of
        (serr, lf1) \<Rightarrow>
          (case restart_start w lf of
             (Some e, lf2) \<Rightarrow>
               (Inl (''failed to restart kappa function: '' @ e), lf2,
                [DidStop serr, DidStart (Some e)])
           | (None, lf2) \<Rightarrow>
               (case iw_post_retry w req of
                  Inl e \<Rightarrow>
                    (Inl (''failed to invoke kappa function after restart: '' @ post_error_msg e),
                     meanwhile (iw_in_retry w) lf2,
                     [DidStop serr, DidStart None, DidPost req])
                | Inr body \<Rightarrow>
                    (case invoke_decode w event body (meanwhile (iw_in_retry w) lf2) of
                       (r, lf3) \<Rightarrow> (r, lf3, [DidStop serr, DidStart None, DidPost req])))))"

text \<open>The instance as it is when the first request comes back.\<close>

definition at_post :: "invoke_world \<Rightarrow> KappaFunction \<Rightarrow> KappaFunction" where
  "at_post w lf = meanwhile (iw_in_flight w) lf"

text \<open>The request and what follows it.\<close>

definition invoke_post ::
  "invoke_world \<Rightarrow> KappaEvent \<Rightarrow> http_request \<Rightarrow> KappaFunction \<Rightarrow> invoke_result" where
  "invoke_post w event req lf0 =
     (let lf = at_post w lf0
      in case iw_post w req of
           Inr body \<Rightarrow>
             (case invoke_decode w event body lf of (r, lf1) \<Rightarrow> (r, lf1, [DidPost req]))
         | Inl e \<Rightarrow>
             if isRunning lf then
               (case invoke_restart w event req lf of
                  (r, lf1, acts) \<Rightarrow> (r, lf1, DidPost req # acts))
             else
               (Inl (''failed to invoke kappa function: '' @ post_error_msg e), lf,
                [DidPost req]))"

definition invoke_request :: "KappaFunction \<Rightarrow> KappaEvent \<Rightarrow> string \<Rightarrow> http_request" where
  "invoke_request lf event payload =
     \<lparr>rq_Method = ''POST'',
      rq_URL = containerURL lf @ ''/2015-03-31/functions/function/invocations'',
      rq_ContentType = ''application/json'',
      rq_RequestId = ev_RequestID event,
      rq_Body = payload\<rparr>"

text \<open>The request id of the invocation: the event's, or a fresh UUID when it has none.\<close>

definition with_request_id :: "invoke_world \<Rightarrow> KappaEvent \<Rightarrow> KappaEvent" where
  "with_request_id w event =
     (if ev_RequestID event = [] then event\<lparr>ev_RequestID := uuid_String (iw_uuid w)\<rparr>
      else event)"

text \<open>After the test of \<^verbatim>\<open>isRunning\<close>: reset the timer, build the request, send it.\<close>

definition invoke_running ::
  "invoke_world \<Rightarrow> KappaEvent \<Rightarrow> KappaFunction \<Rightarrow> invoke_result" where
  "invoke_running w event0 lf0 =
     (let lf = resetIdleTimer lf0;
          event = with_request_id w event0
      in case iw_marshal w event of
           Inl e \<Rightarrow> (Inl (''failed to marshal event: '' @ e), lf, [])
         | Inr payload \<Rightarrow>
             (case iw_newRequest w of
                Some e \<Rightarrow> (Inl (''failed to create request: '' @ e), lf, [])
              | None \<Rightarrow> invoke_post w event (invoke_request lf event payload) lf))"

text \<open>
  The beginning of \<^verbatim>\<open>Invoke\<close>: \<^verbatim>\<open>isRunning\<close> is read under the lock, the lock is released,
  and a function that was seen not running is started. The result is the error of that
  start, the instance as the others have left it when \<^verbatim>\<open>resetIdleTimer\<close> is about to
  run, and the actions so far.
\<close>

definition invoke_ensure ::
  "invoke_world \<Rightarrow> KappaFunction \<Rightarrow> err option \<times> KappaFunction \<times> action list" where
  "invoke_ensure w lf =
     (if \<not> isRunning lf then
        (case Start (iw_start w) (meanwhile (iw_after_read w) lf) of
           (Some e, lf1) \<Rightarrow> (Some e, lf1, [DidStart (Some e)])
         | (None, lf1) \<Rightarrow> (None, meanwhile (iw_after_start w) lf1, [DidStart None]))
      else (None, meanwhile (iw_after_read w) lf, []))"

definition Invoke :: "invoke_world \<Rightarrow> KappaEvent \<Rightarrow> KappaFunction \<Rightarrow> invoke_result" where
  "Invoke w event lf =
     (case invoke_ensure w lf of
        (Some e, lf1, pre) \<Rightarrow> (Inl (''failed to start kappa function: '' @ e), lf1, pre)
      | (None, lf1, pre) \<Rightarrow>
          (case invoke_running w event lf1 of
             (r, lf2, acts) \<Rightarrow> (r, lf2, pre @ acts)))"

section \<open>The service: registry and HTTP handlers\<close>

record KappaFunctionConfig =
  cfg_Name :: string
  cfg_BinaryPath :: string
  cfg_Image :: string
  cfg_Env :: "string list"
  cfg_Port :: int

text \<open>
  The registry is the Go map \<^verbatim>\<open>functions\<close>, kept as an association list: lookup is
  \<open>map_of\<close>, assignment \<^verbatim>\<open>m[k] = v\<close> is \<open>AList.update\<close> (it replaces the value of a key
  already there), \<^verbatim>\<open>delete(m, k)\<close> is \<open>AList.delete\<close>.
\<close>

record KappaService =
  sv_functions :: "(string \<times> KappaFunction) list"

definition NewKappaService :: KappaService where
  "NewKappaService = \<lparr>sv_functions = []\<rparr>"

text \<open>
  What a handler writes: \<^verbatim>\<open>http.Error\<close> writes a status and a text, the JSON encoder a
  value. \<^verbatim>\<open>WriteHeader\<close> panics on a status code outside 100..999.
\<close>

datatype body = TextBody string | JsonBody json

datatype reply = Reply int "(string \<times> string) list" body | HandlerPanic string

definition StatusOK :: int where "StatusOK = 200"
definition StatusCreated :: int where "StatusCreated = 201"
definition StatusBadRequest :: int where "StatusBadRequest = 400"
definition StatusNotFound :: int where "StatusNotFound = 404"
definition StatusConflict :: int where "StatusConflict = 409"
definition StatusInternalServerError :: int where "StatusInternalServerError = 500"

definition http_Error :: "string \<Rightarrow> int \<Rightarrow> reply" where
  "http_Error msg code = Reply code [] (TextBody msg)"

text \<open>\<^verbatim>\<open>os.Stat\<close> on the binary: found, an error for which \<^verbatim>\<open>os.IsNotExist\<close> holds, or
  another error.\<close>

datatype stat_result = StatOk | StatNotExist | StatError err

text \<open>
  \<^verbatim>\<open>registerFunction\<close>. The request is the outcome of decoding its body as a config; \<open>stat\<close>
  answers \<^verbatim>\<open>os.Stat\<close>.
\<close>

definition registerFunction ::
  "(string \<Rightarrow> stat_result) \<Rightarrow> err + KappaFunctionConfig \<Rightarrow> KappaService \<Rightarrow> reply \<times> KappaService" where
  "registerFunction stat req s =
     (case req of
        Inl e \<Rightarrow> (http_Error (''Invalid request: '' @ e) StatusBadRequest, s)
      | Inr config \<Rightarrow>
          if cfg_Name config = [] \<or> cfg_BinaryPath config = [] \<or> cfg_Image config = [] then
            (http_Error ''Missing required fields: name, binaryPath, image'' StatusBadRequest, s)
          else if stat (cfg_BinaryPath config) = StatNotExist then
            (http_Error (''Binary not found: '' @ cfg_BinaryPath config) StatusBadRequest, s)
          else
            let port = (if cfg_Port config = 0 then 8080 else cfg_Port config);
                fn = NewKappaFunction (cfg_Name config) (cfg_BinaryPath config)
                       (cfg_Image config) (cfg_Env config) port
            in (Reply StatusCreated []
                  (JsonBody (JObj [(''name'', JStr (cfg_Name config)),
                                   (''status'', JStr ''registered'')])),
                s\<lparr>sv_functions := AList.update (cfg_Name config) fn (sv_functions s)\<rparr>))"

text \<open>The inbound request of \<^verbatim>\<open>invokeFunction\<close>: path, method, headers and query
  parameters with all their values, and the outcome of decoding the body.\<close>

record invoke_http =
  ih_Path :: string
  ih_Method :: string
  ih_Header :: "(string \<times> string list) list"
  ih_Query :: "(string \<times> string list) list"
  ih_Body :: "err + (string \<times> json) list"

fun first_values :: "(string \<times> string list) list \<Rightarrow> (string \<times> string) list" where
  "first_values [] = []"
| "first_values ((k, []) # rest) = first_values rest"
| "first_values ((k, v # vs) # rest) = (k, v) # first_values rest"

definition write_response :: "KappaResponse \<Rightarrow> reply" where
  "write_response resp =
     (if resp_StatusCode resp < 100 \<or> resp_StatusCode resp > 999
      then HandlerPanic ''invalid WriteHeader code''
      else Reply (resp_StatusCode resp) (resp_Headers resp) (JsonBody (JObj (resp_Body resp))))"

definition http_event :: "invoke_http \<Rightarrow> (string \<times> json) list \<Rightarrow> KappaEvent" where
  "http_event r b =
     \<lparr>ev_Body = b, ev_Path = ih_Path r, ev_HTTPMethod = ih_Method r,
      ev_Headers = first_values (ih_Header r),
      ev_QueryParams = first_values (ih_Query r), ev_RequestID = []\<rparr>"

definition invokeFunction ::
  "invoke_world \<Rightarrow> string \<Rightarrow> invoke_http \<Rightarrow> KappaService \<Rightarrow> reply \<times> KappaService" where
  "invokeFunction w name r s =
     (case map_of (sv_functions s) name of
        None \<Rightarrow> (http_Error (''Function not found: '' @ name) StatusNotFound, s)
      | Some fn \<Rightarrow>
          (case ih_Body r of
             Inl e \<Rightarrow> (http_Error (''Invalid request body: '' @ e) StatusBadRequest, s)
           | Inr b \<Rightarrow>
               (case Invoke w (http_event r b) fn of
                  (Inl e, fn', acts) \<Rightarrow>
                    (http_Error (''Function invocation failed: '' @ e) StatusInternalServerError,
                     s\<lparr>sv_functions := AList.update name fn' (sv_functions s)\<rparr>)
                | (Inr resp, fn', acts) \<Rightarrow>
                    (write_response resp,
                     s\<lparr>sv_functions := AList.update name fn' (sv_functions s)\<rparr>))))"

text \<open>
  \<^verbatim>\<open>deleteFunction\<close>. The handler works on the instance through the pointer it found in the
  map, and the instance outlives its entry (the closure of its idle timer and invocations
  in flight hold the pointer too). The third component is that instance as the handler
  leaves it, \<open>None\<close> when the name is unknown.
\<close>

definition deleteFunction ::
  "stop_world \<Rightarrow> string \<Rightarrow> KappaService \<Rightarrow> reply \<times> KappaService \<times> KappaFunction option" where
  "deleteFunction w name s =
     (case map_of (sv_functions s) name of
        None \<Rightarrow> (http_Error (''Function not found: '' @ name) StatusNotFound, s, None)
      | Some fn \<Rightarrow>
          if IsRunning fn then
            (case Stop w fn of
               (Some e, fn') \<Rightarrow>
                 (http_Error (''Failed to stop function: '' @ e) StatusInternalServerError,
                  s\<lparr>sv_functions := AList.update name fn' (sv_functions s)\<rparr>, Some fn')
             | (None, fn') \<Rightarrow>
                 (Reply StatusOK []
                    (JsonBody (JObj [(''name'', JStr name), (''status'', JStr ''deleted'')])),
                  s\<lparr>sv_functions := AList.delete name (sv_functions s)\<rparr>, Some fn'))
          else
            (Reply StatusOK []
               (JsonBody (JObj [(''name'', JStr name), (''status'', JStr ''deleted'')])),
             s\<lparr>sv_functions := AList.delete name (sv_functions s)\<rparr>, Some fn))"

definition listFunctions :: "KappaService \<Rightarrow> reply" where
  "listFunctions s =
     Reply StatusOK [(''Content-Type'', ''application/json'')]
       (JsonBody (JObj [(''functions'',
          JArr (map (\<lambda>(name, fn). JObj [(''name'', JStr name), (''isRunning'', JBool (IsRunning fn))])
                  (sv_functions s)))]))"

definition getFunctionLogs :: "string \<Rightarrow> KappaService \<Rightarrow> reply" where
  "getFunctionLogs name s =
     (case map_of (sv_functions s) name of
        None \<Rightarrow> http_Error (''Function not found: '' @ name) StatusNotFound
      | Some fn \<Rightarrow>
          Reply StatusOK [(''Content-Type'', ''application/json'')]
            (JsonBody (JObj [(''name'', JStr name), (''logs'', JArr (map JStr (GetLogs fn)))])))"

section \<open>Sequences of operations\<close>




text \<open>A series of registrations, and a series of invocations of one name, on the service.\<close>

fun register_all ::
  "(string \<Rightarrow> stat_result) \<Rightarrow> (err + KappaFunctionConfig) list \<Rightarrow> KappaService \<Rightarrow> KappaService" where
  "register_all stat [] s = s"
| "register_all stat (req # reqs) s = register_all stat reqs (snd (registerFunction stat req s))"

fun invoke_all ::
  "(invoke_world \<times> invoke_http) list \<Rightarrow> string \<Rightarrow> KappaService \<Rightarrow> reply list \<times> KappaService" where
  "invoke_all [] name s = ([], s)"
| "invoke_all ((w, r) # rest) name s =
     (case invokeFunction w name r s of
        (rep, s1) \<Rightarrow> (case invoke_all rest name s1 of (reps, s2) \<Rightarrow> (rep # reps, s2)))"

fun reply_status :: "reply \<Rightarrow> int option" where
  "reply_status (Reply code hs b) = Some code"
| "reply_status (HandlerPanic m) = None"

text \<open>Reading the record of actions of an \<^verbatim>\<open>Invoke\<close>.\<close>

fun is_stop :: "action \<Rightarrow> bool" where
  "is_stop (DidStop e) = True"
| "is_stop a = False"

fun is_post :: "action \<Rightarrow> bool" where
  "is_post (DidPost r) = True"
| "is_post a = False"

section \<open>Sample inputs\<close>

definition ok_remove_world :: remove_world where
  "ok_remove_world =
     \<lparr>rw_status = Inr Stopped, rw_task_delete = None, rw_container_delete = None,
      rw_removeAll = (\<lambda>dir. None)\<rparr>"

definition ok_stop_world :: stop_world where
  "ok_stop_world =
     \<lparr>sw_status = Inr Running, sw_kill = (\<lambda>sig. None), sw_wait = None, sw_exited = True,
      sw_force_kill = None, sw_remove = ok_remove_world\<rparr>"

definition bad_stop_world :: stop_world where
  "bad_stop_world = ok_stop_world\<lparr>sw_kill := (\<lambda>sig. Some (ErrOther ''permission denied''))\<rparr>"

definition gone_stop_world :: stop_world where
  "gone_stop_world = ok_stop_world\<lparr>sw_status := Inl ErrNotFound\<rparr>"

definition sample_uuid :: "8 word list" where
  "sample_uuid = [0x12, 0x34, 0x56, 0x78, 0x9a, 0xbc, 0xde, 0xf0, 1, 2, 3, 4, 5, 6, 7, 8]"

definition ok_start_world :: start_world where
  "ok_start_world =
     \<lparr>stw_mkdirTemp = Inr ''/tmp/kappa-kappa-greet-1'', stw_link = None, stw_copyFile = None,
      stw_chmod = None, stw_uuid = sample_uuid, stw_connect = None, stw_engine = None,
      stw_logged = []\<rparr>"

definition bad_start_world :: start_world where
  "bad_start_world = ok_start_world\<lparr>stw_engine := Some (FailPull ''no route to host'')\<rparr>"

definition greet :: KappaFunction where
  "greet = NewKappaFunction ''greet'' ''/srv/greet'' ''alpine:latest'' [''MODE=test''] 8080"

definition greet_config :: KappaFunctionConfig where
  "greet_config =
     \<lparr>cfg_Name = ''greet'', cfg_BinaryPath = ''/srv/greet'', cfg_Image = ''alpine:latest'',
      cfg_Env = [''MODE=test''], cfg_Port = 0\<rparr>"

definition greet_config2 :: KappaFunctionConfig where
  "greet_config2 = greet_config\<lparr>cfg_Image := ''busybox:latest'', cfg_Port := 9000\<rparr>"

definition disk :: "string \<Rightarrow> stat_result" where
  "disk path = (if path = ''/srv/greet'' then StatOk else StatNotExist)"

definition sample_event :: KappaEvent where
  "sample_event =
     \<lparr>ev_Body = [(''name'', JStr ''TestUser'')], ev_Path = ''/functions/greet'',
      ev_HTTPMethod = ''POST'', ev_Headers = [], ev_QueryParams = [], ev_RequestID = []\<rparr>"

definition sample_response :: KappaResponse where
  "sample_response =
     \<lparr>resp_StatusCode = 200, resp_Headers = [], resp_Body = [(''message'', JStr ''Hello'')],
      resp_RequestID = []\<rparr>"

definition sample_decode :: "string \<Rightarrow> err + KappaResponse" where
  "sample_decode body =
     (if body = ''reply'' then Inr sample_response
      else if body = ''reply with id'' then Inr (sample_response\<lparr>resp_RequestID := ''from-container''\<rparr>)
      else Inl ''unexpected end of JSON input'')"

definition ok_invoke_world :: invoke_world where
  "ok_invoke_world =
     \<lparr>iw_after_read = [], iw_start = ok_start_world, iw_after_start = [],
      iw_uuid = sample_uuid, iw_marshal = (\<lambda>event. Inr ''{}''), iw_newRequest = None,
      iw_post = (\<lambda>req. Inr ''reply''), iw_in_flight = [], iw_before_stop = [],
      iw_stop = ok_stop_world, iw_before_start = [], iw_restart = ok_start_world,
      iw_post_retry = (\<lambda>req. Inr ''reply''), iw_in_retry = [],
      iw_decode = sample_decode\<rparr>"

definition own_id_invoke_world :: invoke_world where
  "own_id_invoke_world = ok_invoke_world\<lparr>iw_post := (\<lambda>req. Inr ''reply with id'')\<rparr>"

definition refused_invoke_world :: invoke_world where
  "refused_invoke_world =
     ok_invoke_world\<lparr>iw_post := (\<lambda>req. Inl (ConnectionError ''connection refused''))\<rparr>"

definition timeout_invoke_world :: invoke_world where
  "timeout_invoke_world =
     ok_invoke_world\<lparr>iw_post := (\<lambda>req. Inl (TimeoutError ''context deadline exceeded''))\<rparr>"

definition norestart_invoke_world :: invoke_world where
  "norestart_invoke_world = refused_invoke_world\<lparr>iw_restart := bad_start_world\<rparr>"

definition idle_invoke_world :: invoke_world where
  "idle_invoke_world = refused_invoke_world\<lparr>iw_in_flight := [OtherStop ok_stop_world]\<rparr>"

definition raced_invoke_world :: invoke_world where
  "raced_invoke_world = refused_invoke_world\<lparr>iw_after_read := [OtherStop ok_stop_world]\<rparr>"

definition sample_http :: invoke_http where
  "sample_http =
     \<lparr>ih_Path = ''/functions/greet'', ih_Method = ''POST'', ih_Header = [], ih_Query = [],
      ih_Body = Inr [(''name'', JStr ''TestUser'')]\<rparr>"

definition warm_greet :: KappaFunction where
  "warm_greet = snd (Start ok_start_world greet)"

definition cold_container :: Container where
  "cold_container =
     \<lparr>c_id = ''kappa-greet-1'', c_mounts = [], c_container = None, c_task = None,
      c_config = start_config greet ''/tmp/kappa-kappa-greet-1'' sample_uuid,
      c_logs = [], c_callbacks = 0, c_tempDirs = [''/tmp/kappa-kappa-greet-1'']\<rparr>"

definition exited_container :: Container where
  "exited_container = snd (cont_Start None cold_container)"

definition greet_service :: KappaService where
  "greet_service = snd (registerFunction disk (Inr greet_config) NewKappaService)"

definition warm_service :: KappaService where
  "warm_service = \<lparr>sv_functions = [(''greet'', warm_greet)]\<rparr>"

definition sample_request :: http_request where
  "sample_request =
     \<lparr>rq_Method = ''POST'',
      rq_URL = ''http://localhost:8080/2015-03-31/functions/function/invocations'',
      rq_ContentType = ''application/json'',
      rq_RequestId = ''12345678-9abc-def0-0102-030405060708'',
      rq_Body = ''{}''\<rparr>"

section \<open>The lifecycle invariant\<close>


section \<open>Evaluation of the samples\<close>

lemmas sample_defs = ok_remove_world_def ok_stop_world_def bad_stop_world_def gone_stop_world_def
  sample_uuid_def ok_start_world_def bad_start_world_def greet_def greet_config_def
  greet_config2_def disk_def sample_event_def sample_response_def sample_decode_def
  ok_invoke_world_def own_id_invoke_world_def refused_invoke_world_def timeout_invoke_world_def
  norestart_invoke_world_def idle_invoke_world_def raced_invoke_world_def sample_http_def

lemmas start_defs = Start_def NewKappaFunction_def place_binary_def launch_def NewContainer_def
  start_config_def validate_Struct_def RegisterTmpDir_def StreamLogs_def resetIdleTimer_def

lemma warm_greet_running: "isRunning warm_greet"
  by (simp add: warm_greet_def sample_defs start_defs)

lemma greet_cold: "\<not> isRunning greet"
  by (simp add: greet_def NewKappaFunction_def)

section \<open>The log buffer\<close>

lemma logCallback_logs:
  "logs (logCallback lf x) = drop (length (logs lf) + 1 - 1000) (logs lf @ [x])"
  by (simp add: logCallback_def Let_def)

lemma logs_foldl_logCallback:
  "length (logs lf) \<le> 1000 \<Longrightarrow>
   logs (foldl logCallback lf ls) = drop (length (logs lf @ ls) - 1000) (logs lf @ ls)"
proof (induction ls rule: rev_induct)
  case Nil
  then show ?case by simp
next
  case (snoc x xs)
  let ?b = "logs lf @ xs"
  have ih: "logs (foldl logCallback lf xs) = drop (length ?b - 1000) ?b"
    using snoc by simp
  have "logs (foldl logCallback lf (xs @ [x])) =
        drop (length (drop (length ?b - 1000) ?b) + 1 - 1000) (drop (length ?b - 1000) ?b @ [x])"
    by (simp add: logCallback_logs ih)
  also have "drop (length ?b - 1000) ?b @ [x] = drop (length ?b - 1000) (?b @ [x])"
    by simp
  also have "drop (length (drop (length ?b - 1000) ?b) + 1 - 1000)
               (drop (length ?b - 1000) (?b @ [x]))
             = drop (length (?b @ [x]) - 1000) (?b @ [x])"
    by (simp only: drop_drop length_drop length_append) (rule arg_cong2[where f=drop], auto)
  finally show ?case by simp
qed

text \<open>
  Claim C3. The log callback is the only writer of an instance's log buffer. Starting from
  a buffer within the cap (the buffer of a new instance is empty), after any sequence of
  appended lines the buffer holds at most 1000 lines; it is what remains of the old buffer
  followed by the new lines once the oldest lines beyond 1000 are dropped; and when more
  than 1000 lines were appended it is exactly the last 1000 of them, in the order of
  their arrival.
\<close>

theorem log_buffer_keeps_last_1000:
  assumes "length (logs lf) \<le> 1000"
  shows "length (logs (foldl logCallback lf ls)) \<le> 1000
       \<and> logs (foldl logCallback lf ls) = drop (length (logs lf @ ls) - 1000) (logs lf @ ls)
       \<and> (1000 < length ls \<longrightarrow>
            length (logs (foldl logCallback lf ls)) = 1000
          \<and> logs (foldl logCallback lf ls) = drop (length ls - 1000) ls)"
proof -
  have eq: "logs (foldl logCallback lf ls) = drop (length (logs lf @ ls) - 1000) (logs lf @ ls)"
    using assms by (rule logs_foldl_logCallback)
  have len: "length (logs (foldl logCallback lf ls)) \<le> 1000"
    by (simp add: eq)
  have newest: "logs (foldl logCallback lf ls) = drop (length ls - 1000) ls" if "1000 < length ls"
    using that by (simp add: eq)
  have full: "length (logs (foldl logCallback lf ls)) = 1000" if "1000 < length ls"
    using that by (simp add: eq)
  from eq len newest full show ?thesis by blast
qed

text \<open>1500 lines, numbered from 0, reach the buffer of a new instance: lines 500 to 1499
  remain.\<close>

theorem log_buffer_keeps_last_1000_witness:
  "length (logs greet) \<le> 1000
   \<and> 1000 < length (map itoa (map int [0..<1500]))
   \<and> length (logs (foldl logCallback greet (map itoa (map int [0..<1500])))) = 1000
   \<and> logs (foldl logCallback greet (map itoa (map int [0..<1500])))
       = map itoa (map int [500..<1500])"
proof -
  have h: "length (logs greet) \<le> 1000"
    by (simp add: greet_def NewKappaFunction_def)
  have d: "drop (length (map itoa (map int [0..<1500])) - 1000) (map itoa (map int [0..<1500]))
           = map itoa (map int [500..<1500])"
    by (simp add: drop_map)
  show ?thesis
    using h d log_buffer_keeps_last_1000 [OF h, of "map itoa (map int [0..<1500])"] by simp
qed

section \<open>Start and Stop\<close>

text \<open>
  Claim C10. \<^verbatim>\<open>Start\<close> on an instance that is already running returns nil and leaves
  every field as it was (so no second container is created); \<^verbatim>\<open>Stop\<close> on an instance
  that is not running, or whose container is nil, returns nil and leaves every field as
  it was.
\<close>

theorem start_running_stop_cold_noop:
  "(isRunning lf \<longrightarrow> Start w lf = (None, lf))
   \<and> (\<not> isRunning lf \<or> container lf = None \<longrightarrow> Stop sw lf = (None, lf))"
  by (auto simp: Start_def Stop_def split: option.splits)

theorem start_running_stop_cold_noop_witness:
  "isRunning warm_greet \<and> Start bad_start_world warm_greet = (None, warm_greet)
   \<and> \<not> isRunning greet \<and> Stop bad_stop_world greet = (None, greet)"
  using start_running_stop_cold_noop [of warm_greet bad_start_world bad_stop_world]
    start_running_stop_cold_noop [of greet bad_start_world bad_stop_world]
    warm_greet_running greet_cold
  by simp

lemma start_greet: "Start ok_start_world greet = (None, warm_greet)"
  by (simp add: warm_greet_def sample_defs start_defs)

lemma launch_config:
  "launch w lf tmpPath = Inr (replayed, c) \<Longrightarrow> c_config c = start_config lf tmpPath (stw_uuid w)"
  by (auto simp: launch_def NewContainer_def Let_def start_config_def validate_Struct_def
        RegisterTmpDir_def StreamLogs_def
      split: sum.splits option.splits prod.splits if_splits start_failure.splits
      elim!: cont_Start.elims)

text \<open>
  Claim C9. When \<^verbatim>\<open>Start\<close> takes a function that is not running to running, the container
  it stores was created with the environment list \<^verbatim>\<open>PORT=<port>\<close>,
  \<^verbatim>\<open>LAMBDA_TASK_ROOT=/app\<close>, \<^verbatim>\<open>LAMBDA_FUNCTION_NAME=<name>\<close>,
  \<^verbatim>\<open>AWS_LAMBDA_RUNTIME_API=localhost:8080\<close>, in that order, followed by the entries of the
  function's own \<^verbatim>\<open>Env\<close> in their order: every caller entry comes after the four base
  entries.
\<close>

theorem start_env_order:
  assumes "\<not> isRunning lf" and "Start w lf = (None, lf')"
  shows "\<exists>c. container lf' = Some c
           \<and> cc_Env (c_config c) =
               Some ([''PORT='' @ itoa (Port lf),
                      ''LAMBDA_TASK_ROOT=/app'',
                      ''LAMBDA_FUNCTION_NAME='' @ Name lf,
                      ''AWS_LAMBDA_RUNTIME_API=localhost:8080''] @ Env lf)"
proof -
  from assms obtain tmpPath replayed c where
    l: "launch w lf tmpPath = Inr (replayed, c)" and c: "container lf' = Some c"
    by (auto simp: Start_def resetIdleTimer_def split: sum.splits option.splits prod.splits)
  from launch_config [OF l] have "cc_Env (c_config c) = Some (start_env lf)"
    by (simp add: start_config_def)
  with c show ?thesis by (simp add: start_env_def)
qed

theorem start_env_order_witness:
  "\<not> isRunning greet \<and> Start ok_start_world greet = (None, warm_greet)
   \<and> (\<exists>c. container warm_greet = Some c
         \<and> cc_Env (c_config c) =
             Some [''PORT=8080'', ''LAMBDA_TASK_ROOT=/app'', ''LAMBDA_FUNCTION_NAME=greet'',
                   ''AWS_LAMBDA_RUNTIME_API=localhost:8080'', ''MODE=test''])"
proof -
  have p: "itoa (Port greet) = ''8080''"
    by (simp add: greet_def NewKappaFunction_def itoa_def digits.simps digit_char_def)
  have n: "Name greet = ''greet''" "Env greet = [''MODE=test'']"
    by (simp_all add: greet_def NewKappaFunction_def)
  show ?thesis
    using start_env_order [OF greet_cold start_greet] greet_cold start_greet by (simp add: p n)
qed

section \<open>The container adapter's Stop\<close>

text \<open>
  Claim C6, as the code has it. \<^verbatim>\<open>Container.Stop\<close> on a container whose task is nil
  fails with the error \<^verbatim>\<open>no running task found\<close> and does nothing else, whatever
  \<^verbatim>\<open>RemoveOnStop\<close> says. When the task is present and its status is not running (the
  status query failing included), \<^verbatim>\<open>Stop\<close> sends no signal: it returns what \<^verbatim>\<open>Remove\<close>
  returns when \<^verbatim>\<open>RemoveOnStop\<close> is set, and nil otherwise.
\<close>

theorem cont_stop_without_running_task:
  "(c_task c = None \<longrightarrow> cont_Stop w opts c = (Some ''no running task found'', c))
   \<and> (c_task c \<noteq> None \<and> sw_status w \<noteq> Inr Running \<longrightarrow>
        cont_Stop w opts c = (if RemoveOnStop opts then Remove (sw_remove w) c else (None, c)))"
  by (auto simp: cont_Stop_def stop_finish_def Let_def split: sum.splits)

lemma exited_container_task: "c_task exited_container \<noteq> None"
  by (simp add: exited_container_def cold_container_def)

lemma remove_exited_container:
  "Remove ok_remove_world exited_container = (None, exited_container\<lparr>c_tempDirs := []\<rparr>)"
  by (simp add: Remove_def exited_container_def cold_container_def ok_remove_world_def
      remove_task_errs_def remove_container_errs_def cleanup_def errors_Join_def)

theorem cont_stop_without_running_task_witness:
  "c_task cold_container = None
   \<and> cont_Stop gone_stop_world stopOpts cold_container = (Some ''no running task found'', cold_container)
   \<and> c_task exited_container \<noteq> None \<and> sw_status gone_stop_world \<noteq> Inr Running
   \<and> cont_Stop gone_stop_world stopOpts exited_container
       = (None, exited_container\<lparr>c_tempDirs := []\<rparr>)"
proof -
  have a: "c_task cold_container = None"
    by (simp add: cold_container_def)
  have b: "sw_status gone_stop_world \<noteq> Inr Running" "sw_remove gone_stop_world = ok_remove_world"
    by (simp_all add: gone_stop_world_def ok_stop_world_def)
  have r: "RemoveOnStop stopOpts"
    by (simp add: stopOpts_def)
  show ?thesis
    using cont_stop_without_running_task [of cold_container gone_stop_world stopOpts]
      cont_stop_without_running_task [of exited_container gone_stop_world stopOpts]
      a b r exited_container_task remove_exited_container
    by simp
qed

text \<open>A container that was created and never started has no task: \<^verbatim>\<open>Stop\<close> with
  \<^verbatim>\<open>RemoveOnStop\<close> set returns an error, and the temp dir that \<^verbatim>\<open>Remove\<close> would have
  unlinked is still registered.\<close>

theorem cont_stop_nil_task_counterexample:
  "c_task cold_container = None \<and> RemoveOnStop stopOpts
   \<and> fst (cont_Stop ok_stop_world stopOpts cold_container) = Some ''no running task found''
   \<and> c_tempDirs (snd (cont_Stop ok_stop_world stopOpts cold_container))
       = [''/tmp/kappa-kappa-greet-1'']"
  by (simp add: cont_Stop_def cold_container_def stopOpts_def)

section \<open>The registry\<close>

lemmas status_defs = StatusOK_def StatusCreated_def StatusBadRequest_def StatusNotFound_def
  StatusConflict_def StatusInternalServerError_def

text \<open>
  Claim C7. For a registration request whose body decodes to a config:
  \<^verbatim>\<open>registerFunction\<close> answers 400 and leaves the registry as it was when the name, the
  binary path or the image is empty, or when the binary does not exist on disk. Otherwise
  it answers 201 with the body \<^verbatim>\<open>{name, status: "registered"}\<close>, and the registry then
  holds under that name a new instance that is not running, has no container, and has
  the port of the request, or 8080 when the request's port is 0.
\<close>

theorem register_validation:
  "(cfg_Name config = [] \<or> cfg_BinaryPath config = [] \<or> cfg_Image config = []
      \<or> stat (cfg_BinaryPath config) = StatNotExist \<longrightarrow>
      reply_status (fst (registerFunction stat (Inr config) s)) = Some StatusBadRequest
      \<and> snd (registerFunction stat (Inr config) s) = s)
   \<and> (cfg_Name config \<noteq> [] \<and> cfg_BinaryPath config \<noteq> [] \<and> cfg_Image config \<noteq> []
      \<and> stat (cfg_BinaryPath config) \<noteq> StatNotExist \<longrightarrow>
      fst (registerFunction stat (Inr config) s)
        = Reply StatusCreated []
            (JsonBody (JObj [(''name'', JStr (cfg_Name config)), (''status'', JStr ''registered'')]))
      \<and> (\<exists>fn. map_of (sv_functions (snd (registerFunction stat (Inr config) s))) (cfg_Name config)
                 = Some fn
            \<and> fn = NewKappaFunction (cfg_Name config) (cfg_BinaryPath config) (cfg_Image config)
                     (cfg_Env config) (if cfg_Port config = 0 then 8080 else cfg_Port config)
            \<and> \<not> isRunning fn \<and> container fn = None
            \<and> Port fn = (if cfg_Port config = 0 then 8080 else cfg_Port config)))"
  by (auto simp: registerFunction_def http_Error_def Let_def update_conv NewKappaFunction_def)

text \<open>The sample config (port 0, binary on disk) is registered with port 8080; the same
  config with the binary path \<^verbatim>\<open>/no/such/file\<close> is refused with 400.\<close>

theorem register_validation_witness:
  "cfg_Name greet_config \<noteq> [] \<and> cfg_BinaryPath greet_config \<noteq> [] \<and> cfg_Image greet_config \<noteq> []
   \<and> disk (cfg_BinaryPath greet_config) \<noteq> StatNotExist \<and> cfg_Port greet_config = 0
   \<and> fst (registerFunction disk (Inr greet_config) NewKappaService)
       = Reply 201 [] (JsonBody (JObj [(''name'', JStr ''greet''), (''status'', JStr ''registered'')]))
   \<and> (\<exists>fn. map_of (sv_functions (snd (registerFunction disk (Inr greet_config) NewKappaService)))
               ''greet'' = Some fn
         \<and> \<not> isRunning fn \<and> Port fn = 8080)
   \<and> disk (cfg_BinaryPath (greet_config\<lparr>cfg_BinaryPath := ''/no/such/file''\<rparr>)) = StatNotExist
   \<and> reply_status (fst (registerFunction disk
         (Inr (greet_config\<lparr>cfg_BinaryPath := ''/no/such/file''\<rparr>)) NewKappaService)) = Some 400
   \<and> snd (registerFunction disk
         (Inr (greet_config\<lparr>cfg_BinaryPath := ''/no/such/file''\<rparr>)) NewKappaService)
       = NewKappaService"
proof -
  have a: "cfg_Name greet_config = ''greet''" "cfg_BinaryPath greet_config = ''/srv/greet''"
    "cfg_Image greet_config = ''alpine:latest''" "cfg_Port greet_config = 0"
    by (simp_all add: greet_config_def)
  have b: "disk ''/srv/greet'' = StatOk" "disk ''/no/such/file'' = StatNotExist"
    by (simp_all add: disk_def)
  show ?thesis
    using register_validation [of greet_config disk NewKappaService]
      register_validation [of "greet_config\<lparr>cfg_BinaryPath := ''/no/such/file''\<rparr>" disk
        NewKappaService]
    by (simp add: a b status_defs)
qed

lemma length_update_present:
  "k \<in> fst ` set al \<Longrightarrow> length (AList.update k v al) = length al"
  using update_keys [of k v al] by (metis length_map list.set_map)

lemma register_keeps_distinct:
  "distinct (map fst (sv_functions s)) \<Longrightarrow>
   distinct (map fst (sv_functions (snd (registerFunction stat req s))))"
  by (auto simp: registerFunction_def http_Error_def Let_def distinct_update split: sum.splits)

lemma register_all_distinct:
  "distinct (map fst (sv_functions s)) \<Longrightarrow>
   distinct (map fst (sv_functions (register_all stat reqs s)))"
  by (induction reqs arbitrary: s) (auto simp: register_keeps_distinct)

lemma register_status:
  "reply_status (fst (registerFunction stat req s)) = Some StatusCreated
   \<or> reply_status (fst (registerFunction stat req s)) = Some StatusBadRequest"
  by (auto simp: registerFunction_def http_Error_def Let_def split: sum.splits)

lemma greet_service_eq: "greet_service = \<lparr>sv_functions = [(''greet'', greet)]\<rparr>"
  by (simp add: greet_service_def registerFunction_def sample_defs NewKappaService_def)

text \<open>
  Claim C2, as the code has it. After any series of registrations the registry holds at
  most one entry for each name, and no registration is ever answered with 409. A valid
  registration under a name that is already registered is answered with 201 like any
  other, and replaces the instance stored under that name by a new one built from the
  request: the number of entries stays the same and the entries of the other names are
  untouched.
\<close>

theorem register_duplicate_replaces:
  "distinct (map fst (sv_functions (register_all stat reqs NewKappaService)))
   \<and> reply_status (fst (registerFunction stat req s)) \<noteq> Some StatusConflict
   \<and> (map_of (sv_functions s) (cfg_Name config) = Some old
      \<and> cfg_Name config \<noteq> [] \<and> cfg_BinaryPath config \<noteq> [] \<and> cfg_Image config \<noteq> []
      \<and> stat (cfg_BinaryPath config) \<noteq> StatNotExist \<longrightarrow>
      reply_status (fst (registerFunction stat (Inr config) s)) = Some StatusCreated
      \<and> map_of (sv_functions (snd (registerFunction stat (Inr config) s))) (cfg_Name config)
          = Some (NewKappaFunction (cfg_Name config) (cfg_BinaryPath config) (cfg_Image config)
                    (cfg_Env config) (if cfg_Port config = 0 then 8080 else cfg_Port config))
      \<and> length (sv_functions (snd (registerFunction stat (Inr config) s))) = length (sv_functions s)
      \<and> (\<forall>n. n \<noteq> cfg_Name config \<longrightarrow>
            map_of (sv_functions (snd (registerFunction stat (Inr config) s))) n
            = map_of (sv_functions s) n))"
proof -
  have d: "distinct (map fst (sv_functions (register_all stat reqs NewKappaService)))"
    by (rule register_all_distinct) (simp add: NewKappaService_def)
  have c: "reply_status (fst (registerFunction stat req s)) \<noteq> Some StatusConflict"
    using register_status [of stat req s] by (auto simp: status_defs)
  have r: "reply_status (fst (registerFunction stat (Inr config) s)) = Some StatusCreated
      \<and> map_of (sv_functions (snd (registerFunction stat (Inr config) s))) (cfg_Name config)
          = Some (NewKappaFunction (cfg_Name config) (cfg_BinaryPath config) (cfg_Image config)
                    (cfg_Env config) (if cfg_Port config = 0 then 8080 else cfg_Port config))
      \<and> length (sv_functions (snd (registerFunction stat (Inr config) s))) = length (sv_functions s)
      \<and> (\<forall>n. n \<noteq> cfg_Name config \<longrightarrow>
            map_of (sv_functions (snd (registerFunction stat (Inr config) s))) n
            = map_of (sv_functions s) n)"
    if "map_of (sv_functions s) (cfg_Name config) = Some old"
      "cfg_Name config \<noteq> []" "cfg_BinaryPath config \<noteq> []" "cfg_Image config \<noteq> []"
      "stat (cfg_BinaryPath config) \<noteq> StatNotExist"
  proof -
    from that(1) have "cfg_Name config \<in> fst ` set (sv_functions s)"
      by (metis domI dom_map_of_conv_image_fst)
    with that show ?thesis
      by (simp add: registerFunction_def Let_def update_conv length_update_present)
  qed
  from d c r show ?thesis by blast
qed

text \<open>With \<^verbatim>\<open>greet\<close> registered, a second valid request for the name \<^verbatim>\<open>greet\<close> (another
  image, port 9000) is answered 201; the registry still has one entry, the new one.\<close>

theorem register_duplicate_replaces_witness:
  "map_of (sv_functions greet_service) (cfg_Name greet_config2) = Some greet
   \<and> cfg_Name greet_config2 \<noteq> [] \<and> cfg_BinaryPath greet_config2 \<noteq> []
   \<and> cfg_Image greet_config2 \<noteq> [] \<and> disk (cfg_BinaryPath greet_config2) \<noteq> StatNotExist
   \<and> reply_status (fst (registerFunction disk (Inr greet_config2) greet_service)) = Some 201
   \<and> map_of (sv_functions (snd (registerFunction disk (Inr greet_config2) greet_service))) ''greet''
       = Some (NewKappaFunction ''greet'' ''/srv/greet'' ''busybox:latest'' [''MODE=test''] 9000)
   \<and> length (sv_functions (snd (registerFunction disk (Inr greet_config2) greet_service))) = 1"
proof -
  have a: "cfg_Name greet_config2 = ''greet''" "cfg_BinaryPath greet_config2 = ''/srv/greet''"
    "cfg_Image greet_config2 = ''busybox:latest''" "cfg_Port greet_config2 = 9000"
    "cfg_Env greet_config2 = [''MODE=test'']"
    by (simp_all add: greet_config2_def greet_config_def)
  have b: "disk ''/srv/greet'' = StatOk"
    by (simp add: disk_def)
  have g: "map_of (sv_functions greet_service) ''greet'' = Some greet"
    "length (sv_functions greet_service) = 1"
    by (simp_all add: greet_service_eq)
  show ?thesis
    using register_duplicate_replaces [of disk "[]" "Inr greet_config2" greet_service
        greet_config2 greet] g
    by (simp add: a b status_defs)
qed

text \<open>Registering \<^verbatim>\<open>greet\<close> twice: the second registration is answered 201, not 409,
  and the instance of the first (image \<^verbatim>\<open>alpine:latest\<close>, port 8080) has been replaced.\<close>

theorem register_duplicate_counterexample:
  "map_of (sv_functions (snd (registerFunction disk (Inr greet_config) NewKappaService))) ''greet''
     = Some greet
   \<and> cfg_Name greet_config2 = ''greet''
   \<and> reply_status (fst (registerFunction disk (Inr greet_config2)
        (snd (registerFunction disk (Inr greet_config) NewKappaService)))) = Some 201
   \<and> map_of (sv_functions (snd (registerFunction disk (Inr greet_config2)
        (snd (registerFunction disk (Inr greet_config) NewKappaService))))) ''greet''
     = Some (NewKappaFunction ''greet'' ''/srv/greet'' ''busybox:latest'' [''MODE=test''] 9000)"
  by (simp add: registerFunction_def sample_defs NewKappaService_def status_defs)

lemma invoke_unregistered:
  "map_of (sv_functions s) name = None \<Longrightarrow>
   invokeFunction w name r s = (http_Error (''Function not found: '' @ name) StatusNotFound, s)"
  by (simp add: invokeFunction_def)

lemma invoke_all_unregistered:
  "map_of (sv_functions s) name = None \<Longrightarrow>
   invoke_all calls name s
   = (map (\<lambda>c. http_Error (''Function not found: '' @ name) StatusNotFound) calls, s)"
  by (induction calls arbitrary: s) (auto simp: invoke_unregistered)

lemma deleted_absent: "map_of (AList.delete name al) name = None"
  by (simp add: delete_conv)

lemma Stop_running_ok:
  "isRunning lf \<Longrightarrow> container lf = Some c \<Longrightarrow> fst (Stop w lf) = None \<Longrightarrow>
   \<not> isRunning (snd (Stop w lf)) \<and> idleTimer (snd (Stop w lf)) = None
   \<and> container (snd (Stop w lf)) = Some (snd (cont_Stop w stopOpts c))
   \<and> fst (cont_Stop w stopOpts c) = None"
  by (auto simp: Stop_def cancelIdleTimer_def split: option.splits prod.splits)

text \<open>
  Claim C8. \<^verbatim>\<open>deleteFunction\<close> on a name that is not registered answers 404 and leaves the
  registry as it was. On a registered function that is not running, or that is running
  and whose \<^verbatim>\<open>Stop\<close> returns nil, it answers 200 and removes the entry; from then on every
  invocation of that name is answered 404 and changes nothing. A running function is
  stopped before its entry is removed: the instance is left as \<^verbatim>\<open>Stop\<close> leaves it, not
  running, with its idle timer cancelled and its container stopped by the container
  adapter with a forced kill and removal. When the function is running and \<^verbatim>\<open>Stop\<close> fails,
  the answer is 500 and the entry, still running, remains in the registry.
\<close>

theorem delete_function_cases:
  "(map_of (sv_functions s) name = None \<longrightarrow>
      deleteFunction w name s
      = (http_Error (''Function not found: '' @ name) StatusNotFound, s, None))
   \<and> (map_of (sv_functions s) name = Some fn \<and> (\<not> isRunning fn \<or> fst (Stop w fn) = None) \<longrightarrow>
      fst (deleteFunction w name s)
        = Reply StatusOK [] (JsonBody (JObj [(''name'', JStr name), (''status'', JStr ''deleted'')]))
      \<and> sv_functions (fst (snd (deleteFunction w name s))) = AList.delete name (sv_functions s)
      \<and> map_of (sv_functions (fst (snd (deleteFunction w name s)))) name = None
      \<and> invoke_all calls name (fst (snd (deleteFunction w name s)))
          = (map (\<lambda>c. http_Error (''Function not found: '' @ name) StatusNotFound) calls,
             fst (snd (deleteFunction w name s))))
   \<and> (map_of (sv_functions s) name = Some fn \<and> \<not> isRunning fn \<longrightarrow>
      snd (snd (deleteFunction w name s)) = Some fn)
   \<and> (map_of (sv_functions s) name = Some fn \<and> isRunning fn \<and> container fn = Some c
        \<and> fst (Stop w fn) = None \<longrightarrow>
      snd (snd (deleteFunction w name s)) = Some (snd (Stop w fn))
      \<and> \<not> isRunning (snd (Stop w fn)) \<and> idleTimer (snd (Stop w fn)) = None
      \<and> container (snd (Stop w fn)) = Some (snd (cont_Stop w stopOpts c))
      \<and> fst (cont_Stop w stopOpts c) = None
      \<and> ForceKill stopOpts \<and> RemoveOnStop stopOpts)
   \<and> (map_of (sv_functions s) name = Some fn \<and> isRunning fn \<and> fst (Stop w fn) = Some e \<longrightarrow>
      fst (deleteFunction w name s)
        = http_Error (''Failed to stop function: '' @ e) StatusInternalServerError
      \<and> map_of (sv_functions (fst (snd (deleteFunction w name s)))) name = Some (snd (Stop w fn))
      \<and> snd (snd (deleteFunction w name s)) = Some (snd (Stop w fn))
      \<and> isRunning (snd (Stop w fn)))"
proof -
  have a: "deleteFunction w name s
      = (http_Error (''Function not found: '' @ name) StatusNotFound, s, None)"
    if "map_of (sv_functions s) name = None"
    using that by (simp add: deleteFunction_def)
  have b: "fst (deleteFunction w name s)
        = Reply StatusOK [] (JsonBody (JObj [(''name'', JStr name), (''status'', JStr ''deleted'')]))
      \<and> sv_functions (fst (snd (deleteFunction w name s))) = AList.delete name (sv_functions s)"
    if "map_of (sv_functions s) name = Some fn" "\<not> isRunning fn \<or> fst (Stop w fn) = None"
    using that by (cases "Stop w fn") (auto simp: deleteFunction_def IsRunning_def)
  have b': "map_of (sv_functions (fst (snd (deleteFunction w name s)))) name = None
      \<and> invoke_all calls name (fst (snd (deleteFunction w name s)))
          = (map (\<lambda>c. http_Error (''Function not found: '' @ name) StatusNotFound) calls,
             fst (snd (deleteFunction w name s)))"
    if "map_of (sv_functions s) name = Some fn" "\<not> isRunning fn \<or> fst (Stop w fn) = None"
  proof -
    have "map_of (sv_functions (fst (snd (deleteFunction w name s)))) name = None"
      using b [OF that] by (simp add: deleted_absent)
    then show ?thesis by (simp add: invoke_all_unregistered)
  qed
  have n: "snd (snd (deleteFunction w name s)) = Some fn"
    if "map_of (sv_functions s) name = Some fn" "\<not> isRunning fn"
    using that by (simp add: deleteFunction_def IsRunning_def)
  have st: "snd (snd (deleteFunction w name s)) = Some (snd (Stop w fn))"
    if "map_of (sv_functions s) name = Some fn" "isRunning fn"
    using that by (cases "Stop w fn") (auto simp: deleteFunction_def IsRunning_def split: option.splits)
  have o: "ForceKill stopOpts \<and> RemoveOnStop stopOpts"
    by (simp add: stopOpts_def)
  have c: "fst (deleteFunction w name s)
        = http_Error (''Failed to stop function: '' @ e) StatusInternalServerError
      \<and> map_of (sv_functions (fst (snd (deleteFunction w name s)))) name = Some (snd (Stop w fn))
      \<and> isRunning (snd (Stop w fn))"
    if "map_of (sv_functions s) name = Some fn" "isRunning fn" "fst (Stop w fn) = Some e"
    using that
    by (cases "Stop w fn")
      (auto simp: deleteFunction_def IsRunning_def update_conv Stop_def cancelIdleTimer_def
        split: option.splits prod.splits if_splits)
  from a b b' n st o c Stop_running_ok [of fn c w] show ?thesis by blast
qed

lemmas stop_defs = Stop_def cont_Stop_def stop_finish_def Remove_def remove_task_errs_def
  remove_container_errs_def cleanup_def errors_Join_def stopOpts_def cancelIdleTimer_def

lemma stop_warm_ok: "fst (Stop ok_stop_world warm_greet) = None"
  by (simp add: warm_greet_def sample_defs start_defs stop_defs)

lemma stop_warm_bad:
  "fst (Stop bad_stop_world warm_greet)
   = Some ''failed to stop container: failed to stop container: permission denied''"
  by (simp add: warm_greet_def sample_defs start_defs stop_defs)

lemma warm_greet_container: "\<exists>c. container warm_greet = Some c"
  by (simp add: warm_greet_def sample_defs start_defs)

text \<open>A registry holding the running \<^verbatim>\<open>greet\<close>: deleting an unknown name, deleting
  \<^verbatim>\<open>greet\<close> when the engine stops it, and deleting it when the kill is refused.\<close>

theorem delete_function_cases_witness:
  "map_of (sv_functions warm_service) ''nosuch'' = None
   \<and> deleteFunction ok_stop_world ''nosuch'' warm_service
       = (Reply 404 [] (TextBody ''Function not found: nosuch''), warm_service, None)
   \<and> map_of (sv_functions warm_service) ''greet'' = Some warm_greet \<and> isRunning warm_greet
   \<and> fst (Stop ok_stop_world warm_greet) = None
   \<and> reply_status (fst (deleteFunction ok_stop_world ''greet'' warm_service)) = Some 200
   \<and> sv_functions (fst (snd (deleteFunction ok_stop_world ''greet'' warm_service))) = []
   \<and> (\<exists>fn'. snd (snd (deleteFunction ok_stop_world ''greet'' warm_service)) = Some fn'
         \<and> \<not> isRunning fn' \<and> idleTimer fn' = None)
   \<and> fst (invoke_all [(ok_invoke_world, sample_http), (refused_invoke_world, sample_http)] ''greet''
         (fst (snd (deleteFunction ok_stop_world ''greet'' warm_service))))
       = [Reply 404 [] (TextBody ''Function not found: greet''),
          Reply 404 [] (TextBody ''Function not found: greet'')]
   \<and> (\<exists>e. fst (Stop bad_stop_world warm_greet) = Some e)
   \<and> reply_status (fst (deleteFunction bad_stop_world ''greet'' warm_service)) = Some 500
   \<and> map_of (sv_functions (fst (snd (deleteFunction bad_stop_world ''greet'' warm_service))))
         ''greet'' \<noteq> None"
proof -
  have m: "map_of (sv_functions warm_service) ''nosuch'' = None"
    "map_of (sv_functions warm_service) ''greet'' = Some warm_greet"
    "AList.delete ''greet'' (sv_functions warm_service) = []"
    by (simp_all add: warm_service_def)
  obtain c where c: "container warm_greet = Some c"
    using warm_greet_container by blast
  show ?thesis
    using delete_function_cases [where s = warm_service and name = "''nosuch''"
        and w = ok_stop_world]
      delete_function_cases [where s = warm_service and name = "''greet''" and fn = warm_greet
        and w = ok_stop_world and c = c
        and calls = "[(ok_invoke_world, sample_http), (refused_invoke_world, sample_http)]"]
      delete_function_cases [where s = warm_service and name = "''greet''" and fn = warm_greet
        and w = bad_stop_world
        and e = "''failed to stop container: failed to stop container: permission denied''"]
      m c warm_greet_running stop_warm_ok stop_warm_bad
    by (simp add: status_defs http_Error_def)
qed

section \<open>Invoke\<close>

lemmas invoke_defs = Invoke_def invoke_ensure_def invoke_running_def invoke_post_def at_post_def
  invoke_restart_def restart_stop_def restart_start_def invoke_decode_def backfill_def
  with_request_id_def invoke_request_def

lemmas uuid_defs = uuid_String_def encodeHex_def hex_byte_def hex_char_def

lemma uuid_String_nonempty: "uuid_String u \<noteq> []"
  by (simp add: uuid_String_def)

lemma sample_uuid_String: "uuid_String sample_uuid = ''12345678-9abc-def0-0102-030405060708''"
  by (simp add: sample_uuid_def uuid_defs)

lemma invoke_decode_ok:
  "invoke_decode w event body lf = (Inr resp, lf') \<Longrightarrow>
   \<exists>kr. iw_decode w body = Inr kr \<and> resp = backfill (ev_RequestID event) kr"
  by (auto simp: invoke_decode_def split: sum.splits)

lemma invoke_restart_ok:
  assumes "invoke_restart w event req lf = (Inr resp, lf', acts)"
  shows "(\<exists>body kr. iw_post_retry w req = Inr body \<and> iw_decode w body = Inr kr
            \<and> resp = backfill (ev_RequestID event) kr)
   \<and> (\<forall>r. DidPost r \<in> set acts \<longrightarrow> r = req)"
proof -
  from assms obtain body lf2 lf3 where
    p: "iw_post_retry w req = Inr body"
    and d: "invoke_decode w event body lf2 = (Inr resp, lf3)"
    and a: "\<forall>r. DidPost r \<in> set acts \<longrightarrow> r = req"
    by (auto simp: invoke_restart_def split: prod.splits option.splits sum.splits)
  from invoke_decode_ok [OF d] p a show ?thesis by blast
qed

lemma invoke_post_ok:
  assumes "invoke_post w event req lf = (Inr resp, lf', acts)"
  shows "(\<exists>body kr. (iw_post w req = Inr body
                       \<or> (\<exists>e. iw_post w req = Inl e) \<and> iw_post_retry w req = Inr body)
            \<and> iw_decode w body = Inr kr \<and> resp = backfill (ev_RequestID event) kr)
   \<and> DidPost req \<in> set acts \<and> (\<forall>r. DidPost r \<in> set acts \<longrightarrow> r = req)"
proof (cases "iw_post w req")
  case (Inr body)
  with assms obtain lf1 where
    d: "invoke_decode w event body (at_post w lf) = (Inr resp, lf1)" and a: "acts = [DidPost req]"
    by (auto simp: invoke_post_def Let_def split: prod.splits)
  from invoke_decode_ok [OF d] Inr a show ?thesis by auto
next
  case (Inl e)
  with assms obtain acts' where
    r: "invoke_restart w event req (at_post w lf) = (Inr resp, lf', acts')"
    and a: "acts = DidPost req # acts'"
    by (auto simp: invoke_post_def Let_def split: prod.splits if_splits)
  from invoke_restart_ok [OF r] a Inl show ?thesis by auto
qed

lemma invoke_running_ok:
  assumes "invoke_running w event lf = (Inr resp, lf', acts)"
  shows "\<exists>req body kr. DidPost req \<in> set acts
     \<and> (iw_post w req = Inr body \<or> (\<exists>e. iw_post w req = Inl e) \<and> iw_post_retry w req = Inr body)
     \<and> iw_decode w body = Inr kr
     \<and> resp = backfill (ev_RequestID (with_request_id w event)) kr
     \<and> (\<forall>r. DidPost r \<in> set acts \<longrightarrow> rq_RequestId r = ev_RequestID (with_request_id w event))"
proof -
  from assms obtain payload where
    p: "invoke_post w (with_request_id w event)
          (invoke_request (resetIdleTimer lf) (with_request_id w event) payload)
          (resetIdleTimer lf) = (Inr resp, lf', acts)"
    by (auto simp: invoke_running_def Let_def split: sum.splits option.splits)
  have q: "rq_RequestId (invoke_request (resetIdleTimer lf) (with_request_id w event) payload)
           = ev_RequestID (with_request_id w event)"
    by (simp add: invoke_request_def)
  from invoke_post_ok [OF p] q show ?thesis by metis
qed

lemma Invoke_ok_running:
  assumes "Invoke w event lf = (Inr resp, lf', acts)"
  shows "\<exists>lf1 acts1. invoke_running w event lf1 = (Inr resp, lf', acts1)
           \<and> (acts = acts1 \<or> acts = DidStart None # acts1)"
  using assms
  by (auto simp: Invoke_def invoke_ensure_def split: if_splits prod.splits option.splits)

lemma sent_id_nonempty: "ev_RequestID (with_request_id w event) \<noteq> []"
  by (simp add: with_request_id_def uuid_String_nonempty)

lemma backfill_nonempty: "rid \<noteq> [] \<Longrightarrow> resp_RequestID (backfill rid kr) \<noteq> []"
  by (simp add: backfill_def)

text \<open>
  Claim C5. When \<^verbatim>\<open>Invoke\<close> returns a response, the response's request id is not empty.
  The id of the invocation is the event's request id, or a fresh UUID when the event has
  none; every request sent carries that id in the \<^verbatim>\<open>Kappa-Runtime-Aws-Request-Id\<close>
  header. The response returned is the decoding of the body that the container sent back
  (to the first request, or to the second one when the first failed), with its request
  id set to the id of the invocation when the envelope's own is empty, and untouched when
  the container filled it.
\<close>

theorem invoke_request_id:
  assumes "Invoke w event lf = (Inr resp, lf', acts)"
  shows "resp_RequestID resp \<noteq> []
    \<and> ev_RequestID (with_request_id w event)
        = (if ev_RequestID event = [] then uuid_String (iw_uuid w) else ev_RequestID event)
    \<and> (\<forall>req. DidPost req \<in> set acts \<longrightarrow>
          rq_RequestId req = ev_RequestID (with_request_id w event))
    \<and> (\<exists>req body kr. DidPost req \<in> set acts
          \<and> (iw_post w req = Inr body
              \<or> (\<exists>e. iw_post w req = Inl e) \<and> iw_post_retry w req = Inr body)
          \<and> iw_decode w body = Inr kr
          \<and> resp = (if resp_RequestID kr = []
                     then kr\<lparr>resp_RequestID := ev_RequestID (with_request_id w event)\<rparr>
                     else kr))"
proof -
  from Invoke_ok_running [OF assms] obtain lf1 acts1 where
    r: "invoke_running w event lf1 = (Inr resp, lf', acts1)"
    and a: "acts = acts1 \<or> acts = DidStart None # acts1"
    by blast
  from invoke_running_ok [OF r] obtain req body kr where
    p: "DidPost req \<in> set acts1"
    and b: "iw_post w req = Inr body
            \<or> (\<exists>e. iw_post w req = Inl e) \<and> iw_post_retry w req = Inr body"
    and d: "iw_decode w body = Inr kr"
    and e: "resp = backfill (ev_RequestID (with_request_id w event)) kr"
    and h: "\<forall>r. DidPost r \<in> set acts1 \<longrightarrow> rq_RequestId r = ev_RequestID (with_request_id w event)"
    by blast
  have 1: "resp_RequestID resp \<noteq> []"
    unfolding e by (rule backfill_nonempty) (rule sent_id_nonempty)
  have 2: "ev_RequestID (with_request_id w event)
        = (if ev_RequestID event = [] then uuid_String (iw_uuid w) else ev_RequestID event)"
    by (simp add: with_request_id_def)
  have 3: "\<forall>req. DidPost req \<in> set acts \<longrightarrow>
          rq_RequestId req = ev_RequestID (with_request_id w event)"
    using h a by auto
  have p': "DidPost req \<in> set acts"
    using p a by auto
  have 4: "\<exists>req body kr. DidPost req \<in> set acts
          \<and> (iw_post w req = Inr body
              \<or> (\<exists>e. iw_post w req = Inl e) \<and> iw_post_retry w req = Inr body)
          \<and> iw_decode w body = Inr kr
          \<and> resp = (if resp_RequestID kr = []
                     then kr\<lparr>resp_RequestID := ev_RequestID (with_request_id w event)\<rparr>
                     else kr)"
    using p' b d e unfolding backfill_def by blast
  from 1 2 3 4 show ?thesis by blast
qed

lemma invoke_greet_result:
  "fst (Invoke ok_invoke_world sample_event greet)
   = Inr (sample_response\<lparr>resp_RequestID := ''12345678-9abc-def0-0102-030405060708''\<rparr>)"
  "snd (snd (Invoke ok_invoke_world sample_event greet)) = [DidStart None, DidPost sample_request]"
  by (simp_all add: sample_defs start_defs invoke_defs uuid_defs sample_request_def
      itoa_def digits.simps digit_char_def)

lemma invoke_greet_own_id_result:
  "fst (Invoke own_id_invoke_world sample_event greet)
   = Inr (sample_response\<lparr>resp_RequestID := ''from-container''\<rparr>)"
  "snd (snd (Invoke own_id_invoke_world sample_event greet))
   = [DidStart None, DidPost sample_request]"
  by (simp_all add: sample_defs start_defs invoke_defs uuid_defs sample_request_def
      itoa_def digits.simps digit_char_def)

text \<open>A cold \<^verbatim>\<open>greet\<close> and an event without request id. A container that answers without
  request id: the response carries the UUID that was drawn and sent. A container that
  answers with the request id \<^verbatim>\<open>from-container\<close>: the response carries that one.\<close>

theorem invoke_request_id_witness:
  "fst (Invoke ok_invoke_world sample_event greet)
     = Inr (sample_response\<lparr>resp_RequestID := ''12345678-9abc-def0-0102-030405060708''\<rparr>)
   \<and> resp_RequestID (sample_response\<lparr>resp_RequestID := ''12345678-9abc-def0-0102-030405060708''\<rparr>)
       \<noteq> []
   \<and> ev_RequestID sample_event = []
   \<and> ev_RequestID (with_request_id ok_invoke_world sample_event)
       = ''12345678-9abc-def0-0102-030405060708''
   \<and> snd (snd (Invoke ok_invoke_world sample_event greet)) = [DidStart None, DidPost sample_request]
   \<and> rq_RequestId sample_request = ''12345678-9abc-def0-0102-030405060708''
   \<and> iw_post ok_invoke_world sample_request = Inr ''reply''
   \<and> iw_decode ok_invoke_world ''reply'' = Inr sample_response
   \<and> resp_RequestID sample_response = []
   \<and> fst (Invoke own_id_invoke_world sample_event greet)
       = Inr (sample_response\<lparr>resp_RequestID := ''from-container''\<rparr>)
   \<and> resp_RequestID (sample_response\<lparr>resp_RequestID := ''from-container''\<rparr>) \<noteq> []
   \<and> snd (snd (Invoke own_id_invoke_world sample_event greet))
       = [DidStart None, DidPost sample_request]
   \<and> iw_post own_id_invoke_world sample_request = Inr ''reply with id''
   \<and> iw_decode own_id_invoke_world ''reply with id''
       = Inr (sample_response\<lparr>resp_RequestID := ''from-container''\<rparr>)"
proof -
  have h: "Invoke ok_invoke_world sample_event greet
           = (Inr (sample_response\<lparr>resp_RequestID := ''12345678-9abc-def0-0102-030405060708''\<rparr>),
              fst (snd (Invoke ok_invoke_world sample_event greet)),
              snd (snd (Invoke ok_invoke_world sample_event greet)))"
    using invoke_greet_result(1) by (metis prod.collapse)
  have h': "Invoke own_id_invoke_world sample_event greet
           = (Inr (sample_response\<lparr>resp_RequestID := ''from-container''\<rparr>),
              fst (snd (Invoke own_id_invoke_world sample_event greet)),
              snd (snd (Invoke own_id_invoke_world sample_event greet)))"
    using invoke_greet_own_id_result(1) by (metis prod.collapse)
  have e: "ev_RequestID sample_event = []" "resp_RequestID sample_response = []"
    by (simp_all add: sample_event_def sample_response_def)
  have u: "uuid_String (iw_uuid ok_invoke_world) = ''12345678-9abc-def0-0102-030405060708''"
    by (simp add: ok_invoke_world_def sample_uuid_String)
  have t: "resp_RequestID (sample_response\<lparr>resp_RequestID := ''12345678-9abc-def0-0102-030405060708''\<rparr>)
             \<noteq> []"
    "ev_RequestID (with_request_id ok_invoke_world sample_event)
       = ''12345678-9abc-def0-0102-030405060708''"
    "rq_RequestId sample_request = ev_RequestID (with_request_id ok_invoke_world sample_event)"
    using invoke_request_id [OF h] by (simp_all add: invoke_greet_result(2) e u)
  have t': "resp_RequestID (sample_response\<lparr>resp_RequestID := ''from-container''\<rparr>) \<noteq> []"
    using invoke_request_id [OF h'] by blast
  have f: "iw_post ok_invoke_world sample_request = Inr ''reply''"
    "iw_post own_id_invoke_world sample_request = Inr ''reply with id''"
    "iw_decode ok_invoke_world ''reply'' = Inr sample_response"
    "iw_decode own_id_invoke_world ''reply with id''
       = Inr (sample_response\<lparr>resp_RequestID := ''from-container''\<rparr>)"
    by (simp_all add: own_id_invoke_world_def ok_invoke_world_def sample_decode_def)
  from t t' f e invoke_greet_result invoke_greet_own_id_result show ?thesis
    by simp
qed

subsection \<open>Restart on a failed request\<close>

lemma invoke_restart_acts:
  "snd (snd (invoke_restart w event req lf))
   = [DidStop (fst (restart_stop w lf)), DidStart (fst (restart_start w lf))]
     @ (if fst (restart_start w lf) = None then [DidPost req] else [])"
  by (auto simp: invoke_restart_def split: prod.splits option.splits sum.splits)

lemma invoke_restart_results:
  "fst (restart_start w lf) = Some e \<Longrightarrow>
   fst (invoke_restart w event req lf) = Inl (''failed to restart kappa function: '' @ e)"
  "fst (restart_start w lf) = None \<Longrightarrow> iw_post_retry w req = Inl e2 \<Longrightarrow>
   fst (invoke_restart w event req lf)
   = Inl (''failed to invoke kappa function after restart: '' @ post_error_msg e2)"
  by (auto simp: invoke_restart_def split: prod.splits option.splits sum.splits)

lemma invoke_post_acts:
  "snd (snd (invoke_post w event req lf))
   = DidPost req #
     (case iw_post w req of
        Inr body \<Rightarrow> []
      | Inl e \<Rightarrow> if isRunning (at_post w lf)
                 then snd (snd (invoke_restart w event req (at_post w lf))) else [])"
  by (auto simp: invoke_post_def Let_def split: prod.splits sum.splits)

lemma invoke_post_fst:
  "iw_post w req = Inl e \<Longrightarrow> isRunning (at_post w lf) \<Longrightarrow>
   fst (invoke_post w event req lf) = fst (invoke_restart w event req (at_post w lf))"
  by (simp add: invoke_post_def split: prod.splits)

lemma invoke_post_not_running:
  "iw_post w req = Inl e \<Longrightarrow> \<not> isRunning (at_post w lf) \<Longrightarrow>
   invoke_post w event req lf
   = (Inl (''failed to invoke kappa function: '' @ post_error_msg e), at_post w lf, [DidPost req])"
  by (simp add: invoke_post_def)

lemma invoke_post_stops: "length (filter is_stop (snd (snd (invoke_post w event req lf)))) \<le> 1"
  by (simp add: invoke_post_acts invoke_restart_acts split: sum.splits)

lemma invoke_post_posts: "length (filter is_post (snd (snd (invoke_post w event req lf)))) \<le> 2"
  by (simp add: invoke_post_acts invoke_restart_acts split: sum.splits)

lemma invoke_post_stop_only_after_failure:
  "filter is_stop (snd (snd (invoke_post w event req lf))) \<noteq> [] \<Longrightarrow>
   \<exists>e. iw_post w req = Inl e \<and> DidPost req \<in> set (snd (snd (invoke_post w event req lf)))"
  by (auto simp: invoke_post_acts invoke_restart_acts split: sum.splits if_splits)

lemma invoke_running_eq:
  "invoke_running w event lf
   = (case iw_marshal w (with_request_id w event) of
        Inl e \<Rightarrow> (Inl (''failed to marshal event: '' @ e), resetIdleTimer lf, [])
      | Inr payload \<Rightarrow>
          (case iw_newRequest w of
             Some e \<Rightarrow> (Inl (''failed to create request: '' @ e), resetIdleTimer lf, [])
           | None \<Rightarrow>
               invoke_post w (with_request_id w event)
                 (invoke_request (resetIdleTimer lf) (with_request_id w event) payload)
                 (resetIdleTimer lf)))"
  by (simp add: invoke_running_def Let_def)

lemma invoke_running_stops:
  "length (filter is_stop (snd (snd (invoke_running w event lf)))) \<le> 1"
  using invoke_post_stops by (auto simp: invoke_running_eq split: sum.splits option.splits)

lemma invoke_running_posts:
  "length (filter is_post (snd (snd (invoke_running w event lf)))) \<le> 2"
  using invoke_post_posts by (auto simp: invoke_running_eq split: sum.splits option.splits)

lemma invoke_running_stop_only_after_failure:
  "filter is_stop (snd (snd (invoke_running w event lf))) \<noteq> [] \<Longrightarrow>
   \<exists>req e. iw_post w req = Inl e \<and> DidPost req \<in> set (snd (snd (invoke_running w event lf)))"
  by (auto simp: invoke_running_eq split: sum.splits option.splits
      dest!: invoke_post_stop_only_after_failure)

lemma invoke_ensure_pre:
  "filter is_stop (snd (snd (invoke_ensure w lf))) = []"
  "filter is_post (snd (snd (invoke_ensure w lf))) = []"
  by (auto simp: invoke_ensure_def split: prod.splits option.splits)

lemma Invoke_acts:
  "snd (snd (Invoke w event lf))
   = (case fst (invoke_ensure w lf) of
        Some e \<Rightarrow> snd (snd (invoke_ensure w lf))
      | None \<Rightarrow> snd (snd (invoke_ensure w lf))
                @ snd (snd (invoke_running w event (fst (snd (invoke_ensure w lf))))))"
  by (auto simp: Invoke_def split: prod.splits option.splits)

lemma Invoke_fst:
  "fst (invoke_ensure w lf) = None \<Longrightarrow>
   fst (Invoke w event lf) = fst (invoke_running w event (fst (snd (invoke_ensure w lf))))"
  "fst (invoke_ensure w lf) = None \<Longrightarrow>
   fst (snd (Invoke w event lf)) = fst (snd (invoke_running w event (fst (snd (invoke_ensure w lf)))))"
  by (auto simp: Invoke_def split: prod.splits option.splits)

lemma Invoke_stops: "length (filter is_stop (snd (snd (Invoke w event lf)))) \<le> 1"
  using invoke_running_stops by (auto simp: Invoke_acts invoke_ensure_pre split: option.splits)

lemma Invoke_posts: "length (filter is_post (snd (snd (Invoke w event lf)))) \<le> 2"
  using invoke_running_posts by (auto simp: Invoke_acts invoke_ensure_pre split: option.splits)

lemma Invoke_stop_only_after_failure:
  "filter is_stop (snd (snd (Invoke w event lf))) \<noteq> [] \<Longrightarrow>
   \<exists>req e. iw_post w req = Inl e \<and> DidPost req \<in> set (snd (snd (Invoke w event lf)))"
  by (auto simp: Invoke_acts invoke_ensure_pre split: option.splits
      dest!: invoke_running_stop_only_after_failure)

lemma Invoke_nothing_sent:
  "fst (invoke_ensure w lf) \<noteq> None \<or> (\<exists>e. iw_marshal w (with_request_id w event) = Inl e)
     \<or> iw_newRequest w \<noteq> None \<Longrightarrow>
   filter is_stop (snd (snd (Invoke w event lf))) = []
   \<and> filter is_post (snd (snd (Invoke w event lf))) = []"
  by (auto simp: Invoke_acts invoke_ensure_pre invoke_running_eq split: option.splits sum.splits)

lemma Invoke_sent:
  assumes "invoke_ensure w lf = (None, lf1, pre)"
    and "iw_marshal w (with_request_id w event) = Inr payload"
    and "iw_newRequest w = None"
  shows "Invoke w event lf
    = (fst (invoke_post w (with_request_id w event)
              (invoke_request (resetIdleTimer lf1) (with_request_id w event) payload)
              (resetIdleTimer lf1)),
       fst (snd (invoke_post w (with_request_id w event)
              (invoke_request (resetIdleTimer lf1) (with_request_id w event) payload)
              (resetIdleTimer lf1))),
       pre @ snd (snd (invoke_post w (with_request_id w event)
              (invoke_request (resetIdleTimer lf1) (with_request_id w event) payload)
              (resetIdleTimer lf1))))"
  using assms by (simp add: Invoke_def invoke_running_eq split: prod.splits)

text \<open>
  Claim C4, as the code has it. Within one \<^verbatim>\<open>Invoke\<close>, \<^verbatim>\<open>Stop\<close> is called at most once
  and at most two requests are sent; \<^verbatim>\<open>Stop\<close> is called only after a request that
  failed; and when the cold start, the encoding of the event or the construction of the
  request fails, nothing is sent and nothing is stopped. When \<^verbatim>\<open>Invoke\<close> gets as far as
  sending the request: if the request succeeds nothing else is done, whatever the decoding
  gives. If it fails, with whatever error of \<^verbatim>\<open>client.Do\<close>, and the function is not
  running by then, \<^verbatim>\<open>Invoke\<close> returns the error and there is no restart. If it fails and
  the function is running, \<^verbatim>\<open>Invoke\<close> calls \<^verbatim>\<open>Stop\<close> and then \<^verbatim>\<open>Start\<close>, once each; if
  that \<^verbatim>\<open>Start\<close> fails \<^verbatim>\<open>Invoke\<close> returns its error and the request is not sent again; if
  it returns nil the request is sent once more, and an error of this second request is
  returned with no further restart.
\<close>

theorem invoke_restarts_at_most_once:
  "length (filter is_stop (snd (snd (Invoke w event lf)))) \<le> 1
   \<and> length (filter is_post (snd (snd (Invoke w event lf)))) \<le> 2
   \<and> (filter is_stop (snd (snd (Invoke w event lf))) \<noteq> [] \<longrightarrow>
        (\<exists>rq err. iw_post w rq = Inl err \<and> DidPost rq \<in> set (snd (snd (Invoke w event lf)))))
   \<and> (fst (invoke_ensure w lf) \<noteq> None \<or> (\<exists>err. iw_marshal w (with_request_id w event) = Inl err)
        \<or> iw_newRequest w \<noteq> None \<longrightarrow>
        filter is_stop (snd (snd (Invoke w event lf))) = []
        \<and> filter is_post (snd (snd (Invoke w event lf))) = [])
   \<and> (invoke_ensure w lf = (None, lf1, pre)
        \<and> iw_marshal w (with_request_id w event) = Inr payload \<and> iw_newRequest w = None
        \<and> req = invoke_request (resetIdleTimer lf1) (with_request_id w event) payload
        \<and> lf2 = at_post w (resetIdleTimer lf1) \<longrightarrow>
        (\<forall>body. iw_post w req = Inr body \<longrightarrow>
           snd (snd (Invoke w event lf)) = pre @ [DidPost req])
        \<and> (\<forall>e. iw_post w req = Inl e \<and> \<not> isRunning lf2 \<longrightarrow>
             Invoke w event lf
             = (Inl (''failed to invoke kappa function: '' @ post_error_msg e), lf2,
                pre @ [DidPost req]))
        \<and> (\<forall>e e'. iw_post w req = Inl e \<and> isRunning lf2
                \<and> fst (restart_start w lf2) = Some e' \<longrightarrow>
             fst (Invoke w event lf) = Inl (''failed to restart kappa function: '' @ e')
             \<and> snd (snd (Invoke w event lf))
                 = pre @ [DidPost req, DidStop (fst (restart_stop w lf2)), DidStart (Some e')])
        \<and> (\<forall>e. iw_post w req = Inl e \<and> isRunning lf2 \<and> fst (restart_start w lf2) = None \<longrightarrow>
             snd (snd (Invoke w event lf))
               = pre @ [DidPost req, DidStop (fst (restart_stop w lf2)), DidStart None,
                        DidPost req]
             \<and> (\<forall>e2. iw_post_retry w req = Inl e2 \<longrightarrow>
                   fst (Invoke w event lf)
                   = Inl (''failed to invoke kappa function after restart: ''
                          @ post_error_msg e2))))"
proof -
  have sent: "(\<forall>body. iw_post w req = Inr body \<longrightarrow>
           snd (snd (Invoke w event lf)) = pre @ [DidPost req])
        \<and> (\<forall>e. iw_post w req = Inl e \<and> \<not> isRunning lf2 \<longrightarrow>
             Invoke w event lf
             = (Inl (''failed to invoke kappa function: '' @ post_error_msg e), lf2,
                pre @ [DidPost req]))
        \<and> (\<forall>e e'. iw_post w req = Inl e \<and> isRunning lf2
                \<and> fst (restart_start w lf2) = Some e' \<longrightarrow>
             fst (Invoke w event lf) = Inl (''failed to restart kappa function: '' @ e')
             \<and> snd (snd (Invoke w event lf))
                 = pre @ [DidPost req, DidStop (fst (restart_stop w lf2)), DidStart (Some e')])
        \<and> (\<forall>e. iw_post w req = Inl e \<and> isRunning lf2 \<and> fst (restart_start w lf2) = None \<longrightarrow>
             snd (snd (Invoke w event lf))
               = pre @ [DidPost req, DidStop (fst (restart_stop w lf2)), DidStart None,
                        DidPost req]
             \<and> (\<forall>e2. iw_post_retry w req = Inl e2 \<longrightarrow>
                   fst (Invoke w event lf)
                   = Inl (''failed to invoke kappa function after restart: ''
                          @ post_error_msg e2)))"
    if E: "invoke_ensure w lf = (None, lf1, pre)"
      and M: "iw_marshal w (with_request_id w event) = Inr payload"
      and N: "iw_newRequest w = None"
      and R: "req = invoke_request (resetIdleTimer lf1) (with_request_id w event) payload"
      and L: "lf2 = at_post w (resetIdleTimer lf1)"
  proof -
    note I = Invoke_sent [OF E M N, folded R]
    have ok: "snd (snd (Invoke w event lf)) = pre @ [DidPost req]" if "iw_post w req = Inr body"
      for body
      using that by (simp add: I invoke_post_acts)
    have cold: "Invoke w event lf
             = (Inl (''failed to invoke kappa function: '' @ post_error_msg e), lf2,
                pre @ [DidPost req])"
      if "iw_post w req = Inl e" "\<not> isRunning lf2" for e
      using that invoke_post_not_running [of w req e "resetIdleTimer lf1" "with_request_id w event"]
      by (simp add: I L)
    have bad: "fst (Invoke w event lf) = Inl (''failed to restart kappa function: '' @ e')
             \<and> snd (snd (Invoke w event lf))
                 = pre @ [DidPost req, DidStop (fst (restart_stop w lf2)), DidStart (Some e')]"
      if "iw_post w req = Inl e" "isRunning lf2" "fst (restart_start w lf2) = Some e'" for e e'
      using that
        invoke_post_fst [of w req e "resetIdleTimer lf1" "with_request_id w event"]
      by (simp add: I L invoke_post_acts invoke_restart_acts invoke_restart_results)
    have again: "snd (snd (Invoke w event lf))
               = pre @ [DidPost req, DidStop (fst (restart_stop w lf2)), DidStart None,
                        DidPost req]
             \<and> (\<forall>e2. iw_post_retry w req = Inl e2 \<longrightarrow>
                   fst (Invoke w event lf)
                   = Inl (''failed to invoke kappa function after restart: ''
                          @ post_error_msg e2))"
      if "iw_post w req = Inl e" "isRunning lf2" "fst (restart_start w lf2) = None" for e
      using that
        invoke_post_fst [of w req e "resetIdleTimer lf1" "with_request_id w event"]
      by (simp add: I L invoke_post_acts invoke_restart_acts invoke_restart_results)
    from ok cold bad again show ?thesis by blast
  qed
  from Invoke_stops [of w event lf] Invoke_posts [of w event lf]
    Invoke_stop_only_after_failure [of w event lf] Invoke_nothing_sent [of w lf event] sent
  show ?thesis by blast
qed

lemma warm_greet_fields:
  "container warm_greet \<noteq> None" "containerURL warm_greet = ''http://localhost:8080''"
  "idleTimer warm_greet \<noteq> None"
  by (simp_all add: warm_greet_def sample_defs start_defs itoa_def digits.simps digit_char_def)

lemma refused_sends:
  "invoke_ensure refused_invoke_world warm_greet = (None, warm_greet, [])"
  "iw_marshal refused_invoke_world (with_request_id refused_invoke_world sample_event) = Inr ''{}''"
  "iw_newRequest refused_invoke_world = None"
  "sample_request = invoke_request (resetIdleTimer warm_greet)
                      (with_request_id refused_invoke_world sample_event) ''{}''"
  "iw_post refused_invoke_world sample_request = Inl (ConnectionError ''connection refused'')"
  "at_post refused_invoke_world (resetIdleTimer warm_greet) = resetIdleTimer warm_greet"
  by (simp_all add: invoke_ensure_def warm_greet_running refused_invoke_world_def
      ok_invoke_world_def with_request_id_def sample_event_def sample_uuid_String
      invoke_request_def sample_request_def resetIdleTimer_def warm_greet_fields at_post_def)

lemma refused_restarts:
  "isRunning (resetIdleTimer warm_greet)"
  "fst (restart_stop refused_invoke_world (resetIdleTimer warm_greet)) = None"
  "fst (restart_start refused_invoke_world (resetIdleTimer warm_greet)) = None"
  by (simp_all add: restart_stop_def restart_start_def warm_greet_def sample_defs start_defs
      stop_defs)

lemma idle_sends:
  "invoke_ensure idle_invoke_world warm_greet = (None, warm_greet, [])"
  "iw_marshal idle_invoke_world (with_request_id idle_invoke_world sample_event) = Inr ''{}''"
  "iw_newRequest idle_invoke_world = None"
  "sample_request = invoke_request (resetIdleTimer warm_greet)
                      (with_request_id idle_invoke_world sample_event) ''{}''"
  "iw_post idle_invoke_world sample_request = Inl (ConnectionError ''connection refused'')"
  by (simp_all add: invoke_ensure_def warm_greet_running idle_invoke_world_def
      refused_invoke_world_def ok_invoke_world_def with_request_id_def sample_event_def
      sample_uuid_String invoke_request_def sample_request_def resetIdleTimer_def
      warm_greet_fields)

lemma idle_stopped: "\<not> isRunning (at_post idle_invoke_world (resetIdleTimer warm_greet))"
  by (simp add: at_post_def warm_greet_def sample_defs start_defs stop_defs)

text \<open>The running \<^verbatim>\<open>greet\<close> and a refused connection. With the engine answering well:
  one stop, one start, and the request a second time. With the function stopped by
  another goroutine while the request is in flight: the error at once, no restart.\<close>

theorem invoke_restarts_at_most_once_witness:
  "invoke_ensure refused_invoke_world warm_greet = (None, warm_greet, [])
   \<and> iw_marshal refused_invoke_world (with_request_id refused_invoke_world sample_event)
       = Inr ''{}''
   \<and> iw_newRequest refused_invoke_world = None
   \<and> sample_request = invoke_request (resetIdleTimer warm_greet)
                         (with_request_id refused_invoke_world sample_event) ''{}''
   \<and> iw_post refused_invoke_world sample_request = Inl (ConnectionError ''connection refused'')
   \<and> isRunning (at_post refused_invoke_world (resetIdleTimer warm_greet))
   \<and> fst (restart_start refused_invoke_world
             (at_post refused_invoke_world (resetIdleTimer warm_greet))) = None
   \<and> snd (snd (Invoke refused_invoke_world sample_event warm_greet))
       = [DidPost sample_request, DidStop None, DidStart None, DidPost sample_request]
   \<and> length (filter is_stop (snd (snd (Invoke refused_invoke_world sample_event warm_greet)))) = 1
   \<and> invoke_ensure idle_invoke_world warm_greet = (None, warm_greet, [])
   \<and> iw_post idle_invoke_world sample_request = Inl (ConnectionError ''connection refused'')
   \<and> \<not> isRunning (at_post idle_invoke_world (resetIdleTimer warm_greet))
   \<and> fst (Invoke idle_invoke_world sample_event warm_greet)
       = Inl ''failed to invoke kappa function: connection refused''
   \<and> snd (snd (Invoke idle_invoke_world sample_event warm_greet)) = [DidPost sample_request]"
proof -
  note T = invoke_restarts_at_most_once [where w = refused_invoke_world and event = sample_event
      and lf = warm_greet and ?lf1.0 = warm_greet and pre = "[]" and payload = "''{}''"
      and req = sample_request
      and ?lf2.0 = "at_post refused_invoke_world (resetIdleTimer warm_greet)"]
  note U = invoke_restarts_at_most_once [where w = idle_invoke_world and event = sample_event
      and lf = warm_greet and ?lf1.0 = warm_greet and pre = "[]" and payload = "''{}''"
      and req = sample_request
      and ?lf2.0 = "at_post idle_invoke_world (resetIdleTimer warm_greet)"]
  have r: "isRunning (at_post refused_invoke_world (resetIdleTimer warm_greet))"
    "fst (restart_stop refused_invoke_world
            (at_post refused_invoke_world (resetIdleTimer warm_greet))) = None"
    "fst (restart_start refused_invoke_world
            (at_post refused_invoke_world (resetIdleTimer warm_greet))) = None"
    by (simp_all add: refused_sends(6) refused_restarts)
  have a: "snd (snd (Invoke refused_invoke_world sample_event warm_greet))
       = [] @ [DidPost sample_request,
               DidStop (fst (restart_stop refused_invoke_world
                   (at_post refused_invoke_world (resetIdleTimer warm_greet)))),
               DidStart None, DidPost sample_request]"
    using T refused_sends(1-5) r by blast
  have b: "Invoke idle_invoke_world sample_event warm_greet
       = (Inl (''failed to invoke kappa function: ''
               @ post_error_msg (ConnectionError ''connection refused'')),
          at_post idle_invoke_world (resetIdleTimer warm_greet), [] @ [DidPost sample_request])"
    using U idle_sends idle_stopped by blast
  from a b r refused_sends idle_sends idle_stopped show ?thesis
    by simp
qed

text \<open>The running \<^verbatim>\<open>greet\<close> and a refused connection, with an engine that cannot pull the
  image on the restart: \<^verbatim>\<open>Invoke\<close> returns the start error after one request, one stop
  and one start, and the request is not retried. The running \<^verbatim>\<open>greet\<close> and a request that
  times out, which is no connection-level error: the function is stopped and started
  and the request is sent again all the same.\<close>

theorem invoke_restart_counterexample:
  "isRunning warm_greet
   \<and> iw_post norestart_invoke_world sample_request = Inl (ConnectionError ''connection refused'')
   \<and> fst (Invoke norestart_invoke_world sample_event warm_greet)
       = Inl ''failed to restart kappa function: failed to start container: failed to pull image: no route to host''
   \<and> snd (snd (Invoke norestart_invoke_world sample_event warm_greet))
       = [DidPost sample_request, DidStop None,
          DidStart (Some ''failed to start container: failed to pull image: no route to host'')]
   \<and> iw_post timeout_invoke_world sample_request = Inl (TimeoutError ''context deadline exceeded'')
   \<and> snd (snd (Invoke timeout_invoke_world sample_event warm_greet))
       = [DidPost sample_request, DidStop None, DidStart None, DidPost sample_request]"
  by (simp add: warm_greet_def sample_defs start_defs invoke_defs uuid_defs stop_defs
      sample_request_def itoa_def digits.simps digit_char_def)

section \<open>The lifecycle of an instance\<close>




























end
